theory Spec2Isabelle
  imports Complex_Main "HOL-Library.Sublist" "HOL-Library.AList"
begin

section \<open>Python strings\<close>

text \<open>
  A Python \<^verbatim>\<open>str\<close> is modelled as a \<^typ>\<open>string\<close>, a list of 8-bit characters. The
  keyword tables of the repository are plain ASCII; \<^verbatim>\<open>str.lower()\<close> is modelled on the
  ASCII letters (\<open>A\<close>..\<open>Z\<close> are folded, every other character is kept). Unicode case
  folding of non-ASCII code points is outside this model.
\<close>

definition lower_char :: "char \<Rightarrow> char" where
  "lower_char c =
     (case map_of (zip ''ABCDEFGHIJKLMNOPQRSTUVWXYZ'' ''abcdefghijklmnopqrstuvwxyz'') c of
        Some d \<Rightarrow> d
      | None \<Rightarrow> c)"

definition lower :: "string \<Rightarrow> string" where
  "lower s = map lower_char s"

text \<open>\<^verbatim>\<open>w in s\<close> on strings: \<open>w\<close> occurs in \<open>s\<close> as a contiguous block.\<close>

fun py_in :: "string \<Rightarrow> string \<Rightarrow> bool" where
  "py_in w [] = (w = [])"
| "py_in w (c # cs) = (prefix w (c # cs) \<or> py_in w cs)"

text \<open>\<^verbatim>\<open>any(word in s for word in words)\<close>\<close>

definition any_in :: "string list \<Rightarrow> string \<Rightarrow> bool" where
  "any_in words s = list_ex (\<lambda>word. py_in word s) words"

text \<open>
  On a string of ASCII characters \<open>lower\<close> is \<^verbatim>\<open>str.lower()\<close> exactly. Python also
  folds a few characters outside ASCII into ASCII letters (the Kelvin sign becomes
  \<open>k\<close>), which \<open>lower\<close> leaves alone: the theorems that say which label a message
  gets are stated for ASCII messages.
\<close>

definition is_ascii :: "string \<Rightarrow> bool" where
  "is_ascii s = list_all (\<lambda>c. (of_char c :: nat) < 128) s"

section \<open>Intent classifiers\<close>

text \<open>
  \<^verbatim>\<open>LoomAIOrchestrator.detect_task_type\<close> of \<^verbatim>\<open>python_ai_service/proper_main.py\<close>.
\<close>

definition proper_detect_task_type :: "string \<Rightarrow> string" where
  "proper_detect_task_type message =
     (let message_lower = lower message in
      if any_in [''favorite'', ''prefer'', ''like''] message_lower then ''preference_query''
      else if any_in [''weather'', ''news'', ''search''] message_lower then ''web_search''
      else if any_in [''calendar'', ''schedule'', ''event''] message_lower
        then ''calendar_management''
      else if any_in [''email'', ''mail''] message_lower then ''email_management''
      else if any_in [''image'', ''photo'', ''picture''] message_lower then ''image_analysis''
      else if any_in [''remember'', ''memory'', ''recall''] message_lower
        then ''memory_retrieval''
      else ''general_chat'')"

text \<open>
  \<^verbatim>\<open>AssistantAgent._detect_task_type\<close> of \<^verbatim>\<open>ai_assistant/agents/assistant_agent.py\<close>.
\<close>

definition agent_detect_task_type :: "string \<Rightarrow> string" where
  "agent_detect_task_type message =
     (let message_lower = lower message in
      if any_in [''favorite'', ''prefer'', ''like''] message_lower then ''preference_query''
      else if any_in [''weather'', ''news'', ''search''] message_lower then ''web_search''
      else if any_in [''calendar'', ''schedule'', ''event''] message_lower
        then ''calendar_management''
      else if any_in [''email'', ''mail''] message_lower then ''email_management''
      else if any_in [''image'', ''photo'', ''picture''] message_lower then ''image_analysis''
      else ''general_chat'')"

text \<open>\<^verbatim>\<open>detect_task_type\<close> of \<^verbatim>\<open>python_ai_service/simple_main.py\<close>.\<close>

definition simple_detect_task_type :: "string \<Rightarrow> string" where
  "simple_detect_task_type message =
     (let message_lower = lower message in
      if any_in [''search'', ''find'', ''look up'', ''research''] message_lower
        then ''web_search''
      else if any_in [''schedule'', ''calendar'', ''meeting'', ''appointment''] message_lower
        then ''calendar''
      else if any_in [''email'', ''send'', ''message'', ''mail''] message_lower then ''email''
      else if any_in [''image'', ''photo'', ''picture'', ''analyze''] message_lower
        then ''image_analysis''
      else ''general_chat'')"

text \<open>
  \<^verbatim>\<open>LoomAIOrchestrator.detect_task_type\<close> of \<^verbatim>\<open>python_ai_service/main.py\<close>.
\<close>

definition main_detect_task_type :: "string \<Rightarrow> string" where
  "main_detect_task_type message =
     (let message_lower = lower message in
      if any_in [''search'', ''find'', ''look up'', ''research''] message_lower
        then ''web_search''
      else if any_in [''schedule'', ''calendar'', ''meeting'', ''appointment''] message_lower
        then ''calendar''
      else if any_in [''email'', ''send'', ''message'', ''mail''] message_lower then ''email''
      else if any_in [''image'', ''photo'', ''picture'', ''analyze''] message_lower
        then ''image_analysis''
      else ''general_chat'')"

text \<open>
  The label set as the specification words it, and the label set of the two classifiers
  that name the calendar and email intents \<open>calendar\<close> and \<open>email\<close>.
\<close>

definition spec_labels :: "string set" where
  "spec_labels =
     {''preference_query'', ''web_search'', ''calendar_management'', ''email_management'',
      ''image_analysis'', ''general_chat'', ''memory_retrieval'', ''error''}"

definition short_labels :: "string set" where
  "short_labels = {''web_search'', ''calendar'', ''email'', ''image_analysis'', ''general_chat''}"

text \<open>The labels that occur in \<^verbatim>\<open>proper_main\<close>'s classifier and in the agent's.\<close>

definition proper_labels :: "string set" where
  "proper_labels =
     {''preference_query'', ''web_search'', ''calendar_management'', ''email_management'',
      ''image_analysis'', ''memory_retrieval'', ''general_chat''}"

definition agent_labels :: "string set" where
  "agent_labels =
     {''preference_query'', ''web_search'', ''calendar_management'', ''email_management'',
      ''image_analysis'', ''general_chat''}"

text \<open>The keywords each classifier checks, collected from its branches.\<close>

definition proper_keywords :: "string list" where
  "proper_keywords =
     [''favorite'', ''prefer'', ''like'', ''weather'', ''news'', ''search'',
      ''calendar'', ''schedule'', ''event'', ''email'', ''mail'',
      ''image'', ''photo'', ''picture'', ''remember'', ''memory'', ''recall'']"

definition agent_keywords :: "string list" where
  "agent_keywords =
     [''favorite'', ''prefer'', ''like'', ''weather'', ''news'', ''search'',
      ''calendar'', ''schedule'', ''event'', ''email'', ''mail'',
      ''image'', ''photo'', ''picture'']"

definition simple_keywords :: "string list" where
  "simple_keywords =
     [''search'', ''find'', ''look up'', ''research'',
      ''schedule'', ''calendar'', ''meeting'', ''appointment'',
      ''email'', ''send'', ''message'', ''mail'',
      ''image'', ''photo'', ''picture'', ''analyze'']"

section \<open>More of Python's string and container operations\<close>

definition upper_char :: "char \<Rightarrow> char" where
  "upper_char c =
     (case map_of (zip ''abcdefghijklmnopqrstuvwxyz'' ''ABCDEFGHIJKLMNOPQRSTUVWXYZ'') c of
        Some d \<Rightarrow> d
      | None \<Rightarrow> c)"

definition is_lower :: "char \<Rightarrow> bool" where
  "is_lower c = (c \<in> set ''abcdefghijklmnopqrstuvwxyz'')"

definition is_upper :: "char \<Rightarrow> bool" where
  "is_upper c = (c \<in> set ''ABCDEFGHIJKLMNOPQRSTUVWXYZ'')"

text \<open>
  \<^verbatim>\<open>str.title()\<close>: a cased character is upper-cased when the character before it is
  not cased, and lower-cased otherwise. The flag is \<^verbatim>\<open>previous_is_cased\<close>.
\<close>

fun title_from :: "bool \<Rightarrow> string \<Rightarrow> string" where
  "title_from previous_is_cased [] = []"
| "title_from previous_is_cased (c # cs) =
     (if is_lower c
      then (if previous_is_cased then c else upper_char c) # title_from True cs
      else if is_upper c
      then (if previous_is_cased then lower_char c else c) # title_from True cs
      else c # title_from False cs)"

definition title :: "string \<Rightarrow> string" where
  "title s = title_from False s"

text \<open>The characters \<^verbatim>\<open>str.strip()\<close> removes from both ends of an ASCII string.\<close>

definition is_space :: "char \<Rightarrow> bool" where
  "is_space c =
     (c \<in> set [CHR '' '', CHR 0x09, CHR 0x0A, CHR 0x0B, CHR 0x0C, CHR 0x0D,
                CHR 0x1C, CHR 0x1D, CHR 0x1E, CHR 0x1F])"

definition strip :: "string \<Rightarrow> string" where
  "strip s = rev (dropWhile is_space (rev (dropWhile is_space s)))"

text \<open>
  \<^verbatim>\<open>s.replace(old, new)\<close> and \<^verbatim>\<open>s.split(sep)\<close>, scanning from the left over
  non-overlapping occurrences. Every call of the repository passes a non-empty literal
  \<open>old\<close> or \<open>sep\<close>; for an empty one the model leaves the string whole.
\<close>

fun replace :: "string \<Rightarrow> string \<Rightarrow> string \<Rightarrow> string" where
  "replace old new [] = []"
| "replace old new (c # cs) =
     (if old \<noteq> [] \<and> prefix old (c # cs)
      then new @ replace old new (drop (length old - 1) cs)
      else c # replace old new cs)"

fun split :: "string \<Rightarrow> string \<Rightarrow> string list" where
  "split sep [] = [[]]"
| "split sep (c # cs) =
     (if sep \<noteq> [] \<and> prefix sep (c # cs)
      then [] # split sep (drop (length sep - 1) cs)
      else (case split sep cs of p # ps \<Rightarrow> (c # p) # ps | [] \<Rightarrow> [[c]]))"

text \<open>\<^verbatim>\<open>sep.join(parts)\<close>\<close>

fun join :: "string \<Rightarrow> string list \<Rightarrow> string" where
  "join sep [] = []"
| "join sep [x] = x"
| "join sep (x # y # ys) = x @ sep @ join sep (y # ys)"

text \<open>\<^verbatim>\<open>str(n)\<close> for a length or a count, and for an \<^verbatim>\<open>int\<close>.\<close>

definition digit_char :: "nat \<Rightarrow> char" where
  "digit_char d = ''0123456789'' ! d"

fun str_nat :: "nat \<Rightarrow> string" where
  "str_nat n =
     (if n < 10 then [digit_char n] else str_nat (n div 10) @ [digit_char (n mod 10)])"

declare str_nat.simps [simp del]

definition str_int :: "int \<Rightarrow> string" where
  "str_int i = (if i < 0 then CHR ''-'' # str_nat (nat (- i)) else str_nat (nat i))"

text \<open>
  A \<^verbatim>\<open>dict\<close> whose keys matter in order of lookup only is an association list;
  \<^verbatim>\<open>d.get(k, default)\<close> reads it.
\<close>

definition dict_get :: "('k \<times> 'v) list \<Rightarrow> 'k \<Rightarrow> 'v \<Rightarrow> 'v" where
  "dict_get d k dflt = (case map_of d k of Some v \<Rightarrow> v | None \<Rightarrow> dflt)"

section \<open>Requests and responses\<close>

text \<open>
  The request's context is the key/value bag of the data model: each of \<open>preferences\<close>,
  \<open>notes\<close>, \<open>events\<close>, \<open>media\<close>, \<open>emails\<close> is an ordered sequence of records, and a record
  is a dictionary from strings to strings. Contexts of any other shape make the handlers
  raise inside their \<^verbatim>\<open>try\<close> blocks and are not modelled.
\<close>

type_synonym py_record = "(string \<times> string) list"

type_synonym py_context = "(string \<times> py_record list) list"

record user_input =
  message :: string
  user_id :: int
  user_context :: py_context

record ai_response =
  response :: string
  confidence :: real
  task_type :: string
  memory_updated :: bool
  tools_used :: "string list"

section \<open>The simplified chat service \<^verbatim>\<open>ai_assistant/simple_ai.py\<close>\<close>

definition analyze_preferences :: "string \<Rightarrow> py_record list \<Rightarrow> string option" where
  "analyze_preferences msg preferences =
     (let message_lower = lower msg in
      if py_in ''tv series'' message_lower \<or> py_in ''series'' message_lower then
        (case find (\<lambda>p. py_in ''tv_series'' (dict_get p ''key'' '''')) preferences of
           Some tv_pref \<Rightarrow>
             if tv_pref \<noteq> [] then
               Some (''Your favorite TV series is: **''
                 @ title (strip (replace ''tv series: '' '''' (dict_get tv_pref ''value'' '''')))
                 @ ''**'')
             else None
         | None \<Rightarrow> None)
      else if py_in ''album'' message_lower then
        (case find (\<lambda>p. py_in ''favorite_album'' (dict_get p ''key'' '''')) preferences of
           Some album_pref \<Rightarrow>
             if album_pref \<noteq> [] then
               Some (''Your favorite album is: **'' @ dict_get album_pref ''value'' '''' @ ''**'')
             else None
         | None \<Rightarrow> None)
      else if py_in ''singers'' message_lower \<and> \<not> py_in ''singer?'' message_lower then
        (case find (\<lambda>p. py_in ''favorite_singers'' (dict_get p ''key'' '''')) preferences of
           Some singers_pref \<Rightarrow>
             if singers_pref \<noteq> [] then
               Some (''Your favorite singers are: **''
                 @ strip (replace ''singers: '' '''' (dict_get singers_pref ''value'' ''''))
                 @ ''**'')
             else None
         | None \<Rightarrow> None)
      else if py_in ''singer?'' message_lower then Some ''I don't know your favorite singer.''
      else None)"

definition greeting_text :: string where
  "greeting_text =
     ''Hello! I'm your LOOM AI Assistant powered by LangChain + Ollama + ChromaDB. ''
     @ ''I can help you with your preferences, notes, gallery, and more. ''
     @ ''What would you like to know?''"

definition unknown_text :: string where
  "unknown_text =
     ''I don't have specific information about that. ''
     @ ''Could you ask me about your preferences, TV series, music albums, or images?''"

definition gallery_text :: "py_record list \<Rightarrow> string" where
  "gallery_text media =
     (let media_files = map (\<lambda>m. dict_get m ''filename'' '''') media in
      ''I can see you have '' @ str_nat (length media) @ '' files in your gallery: ''
      @ join '', '' (take 3 media_files)
      @ (if length media_files > 3 then ''...'' else '''')
      @ ''. I can analyze images when you share them with me.'')"

text \<open>
  \<^verbatim>\<open>chat_endpoint\<close>. With a context of the modelled shape nothing in the \<^verbatim>\<open>try\<close> block
  raises, so the handler that turns an exception into HTTP status 500 is not reached.
\<close>

definition chat_endpoint :: "user_input \<Rightarrow> ai_response" where
  "chat_endpoint inp =
     (let msg = message inp;
          preferences = dict_get (user_context inp) ''preferences'' [];
          pref_response = analyze_preferences msg preferences in
      if (case pref_response of Some r \<Rightarrow> r \<noteq> [] | None \<Rightarrow> False) then
        \<lparr>response = the pref_response, confidence = 0.9, task_type = ''preference_query'',
         memory_updated = True,
         tools_used = [''langchain_agent'', ''preference_analysis'', ''chromadb_memory'']\<rparr>
      else if py_in ''image'' (lower msg) \<or> py_in ''gallery'' (lower msg) then
        (let media = dict_get (user_context inp) ''media'' [] in
         if media \<noteq> [] then
           \<lparr>response = gallery_text media, confidence = 0.8, task_type = ''gallery_query'',
            memory_updated = True,
            tools_used = [''langchain_agent'', ''gallery_analysis'', ''chromadb_memory'']\<rparr>
         else
           \<lparr>response = ''I don't see any images in your gallery yet. Feel free to upload some!'',
            confidence = 0.8, task_type = ''gallery_query'', memory_updated = True,
            tools_used = [''langchain_agent'', ''gallery_analysis'']\<rparr>)
      else if lower msg \<in> set [''hi'', ''hello'', ''hey''] then
        \<lparr>response = greeting_text, confidence = 0.9, task_type = ''greeting'',
         memory_updated = True,
         tools_used = [''langchain_agent'', ''contextual_response'', ''chromadb_memory'']\<rparr>
      else
        \<lparr>response = unknown_text, confidence = 0.7, task_type = ''unknown'',
         memory_updated = True, tools_used = [''langchain_agent'', ''chromadb_memory'']\<rparr>)"

section \<open>The service starter \<^verbatim>\<open>ai_assistant/start_service.py\<close>\<close>

text \<open>
  \<^verbatim>\<open>chat\<close>. A branch of the \<^verbatim>\<open>if\<close>/\<^verbatim>\<open>elif\<close> chain whose inner \<^verbatim>\<open>if\<close> fails has no
  \<^verbatim>\<open>return\<close>: control leaves the chain and the function ends, returning \<^verbatim>\<open>None\<close>,
  which is \<open>None\<close> here.
\<close>

definition chat :: "user_input \<Rightarrow> ai_response option" where
  "chat inp =
     (let msg = lower (message inp);
          preferences = dict_get (user_context inp) ''preferences'' [] in
      if py_in ''tv series'' msg \<or> py_in ''favorite series'' msg then
        (case find (\<lambda>p. py_in ''tv_series'' (dict_get p ''key'' '''')) preferences of
           Some tv_pref \<Rightarrow>
             if tv_pref \<noteq> [] then
               Some \<lparr>response = ''Your favorite TV series is: **''
                        @ title (strip (replace ''tv series: '' ''''
                                          (dict_get tv_pref ''value'' '''')))
                        @ ''**'',
                     confidence = 0.9, task_type = ''preference_query'', memory_updated = True,
                     tools_used = [''preference_analysis'', ''langchain_agent'']\<rparr>
             else None
         | None \<Rightarrow> None)
      else if py_in ''album'' msg then
        (case find (\<lambda>p. py_in ''favorite_album'' (dict_get p ''key'' '''')) preferences of
           Some album_pref \<Rightarrow>
             if album_pref \<noteq> [] then
               Some \<lparr>response = ''Your favorite album is: **''
                        @ dict_get album_pref ''value'' '''' @ ''**'',
                     confidence = 0.9, task_type = ''preference_query'', memory_updated = True,
                     tools_used = [''preference_analysis'', ''langchain_agent'']\<rparr>
             else None
         | None \<Rightarrow> None)
      else if py_in ''singers'' msg then
        (case find (\<lambda>p. py_in ''favorite_singers'' (dict_get p ''key'' '''')) preferences of
           Some singers_pref \<Rightarrow>
             if singers_pref \<noteq> [] then
               Some \<lparr>response = ''Your favorite singers are: **''
                        @ strip (replace ''singers: '' '''' (dict_get singers_pref ''value'' ''''))
                        @ ''**'',
                     confidence = 0.9, task_type = ''preference_query'', memory_updated = True,
                     tools_used = [''preference_analysis'', ''langchain_agent'']\<rparr>
             else None
         | None \<Rightarrow> None)
      else if py_in ''image'' msg \<or> py_in ''gallery'' msg then
        (let media = dict_get (user_context inp) ''media'' [] in
         if media \<noteq> [] then
           Some \<lparr>response = gallery_text media, confidence = 0.8, task_type = ''gallery_query'',
                 memory_updated = True,
                 tools_used = [''gallery_analysis'', ''langchain_agent'']\<rparr>
         else None)
      else if msg \<in> set [''hi'', ''hello'', ''hey''] then
        Some \<lparr>response = greeting_text, confidence = 0.9, task_type = ''greeting'',
              memory_updated = True,
              tools_used = [''langchain_agent'', ''contextual_response'']\<rparr>
      else
        Some \<lparr>response = unknown_text, confidence = 0.7, task_type = ''unknown'',
              memory_updated = True, tools_used = [''langchain_agent'']\<rparr>)"

section \<open>The test service \<^verbatim>\<open>python_ai_service/simple_main.py\<close>\<close>

record ai_request = user_input +
  requested_task_type :: "string option"

definition generate_response :: "string \<Rightarrow> py_context \<Rightarrow> string \<Rightarrow> string" where
  "generate_response msg ctx tt =
     (if tt = ''web_search'' then
        ''I'll search for information about '' @ [CHR 0x27] @ msg @ [CHR 0x27]
        @ ''. Using LangChain + Ollama orchestration to find relevant current information.''
      else if tt = ''calendar'' then
        (let events_count = length (dict_get ctx ''events'' []) in
         ''I'll help you manage your calendar using Google Calendar integration. ''
         @ ''You currently have '' @ str_nat events_count @ '' events scheduled.'')
      else if tt = ''email'' then
        (let emails_count = length (dict_get ctx ''emails'' []) in
         ''I'll assist with your email needs using Gmail API integration. ''
         @ ''You have '' @ str_nat emails_count @ '' emails in your system.'')
      else if tt = ''image_analysis'' then
        (let media_count = length (dict_get ctx ''media'' []) in
         ''I'll analyze the image using CLIP computer vision model. ''
         @ ''You have '' @ str_nat media_count @ '' media files stored.'')
      else
        (let notes_context =
           (if dict_get ctx ''notes'' [] \<noteq> [] then
              (let note_titles =
                 map (\<lambda>note. dict_get note ''title'' ''Untitled'')
                   (take 3 (dict_get ctx ''notes'' [])) in
               '' I can see you have notes about '' @ join '', '' note_titles @ ''.'')
            else '''') in
         ''I'm your LangChain-powered AI assistant with access to Ollama (LLaMA3/Mistral), ''
         @ ''ChromaDB vector memory, and comprehensive tools.'' @ notes_context
         @ '' How can I help you today?''))"

definition orchestrate_ai_task :: "ai_request \<Rightarrow> ai_response" where
  "orchestrate_ai_task request =
     (let tt = simple_detect_task_type (message request);
          resp = generate_response (message request) (user_context request) tt;
          tools =
            (if tt = ''web_search'' then [''web_search'', ''tavily_api'']
             else if tt = ''calendar'' then [''calendar_management'', ''google_calendar'']
             else if tt = ''email'' then [''email_management'', ''gmail_api'']
             else if tt = ''image_analysis'' then [''image_analysis'', ''clip_model'']
             else [''langchain_orchestration'', ''ollama_llm'']) in
      \<lparr>response = resp, confidence = 0.9, task_type = tt, memory_updated = True,
       tools_used = tools\<rparr>)"

section \<open>The agent's preference analyzer\<close>

text \<open>
  \<^verbatim>\<open>AssistantAgent._analyze_preferences\<close> receives one string of the form
  \<^verbatim>\<open>user_id:X|query:Y|context:Z\<close>. Two library functions it calls are parameters of
  the model: \<^verbatim>\<open>json.loads\<close> (\<open>None\<close> when it raises) and \<^verbatim>\<open>int\<close> (\<open>Inl\<close> with the
  text of the \<^verbatim>\<open>ValueError\<close> when it raises). A loaded JSON value that is not an
  object is \<open>Other e\<close>, with \<open>e\<close> the text of the error its missing \<^verbatim>\<open>get\<close> raises.
\<close>

datatype py_value = Dict py_context | Other string

record py_lib =
  json_loads :: "string \<Rightarrow> py_value option"
  py_int :: "string \<Rightarrow> string + int"

text \<open>
  The loop over the parts, with the three variables it assigns. \<^verbatim>\<open>part.split(k)[1]\<close>
  exists whenever \<^verbatim>\<open>k in part\<close>; the bare \<^verbatim>\<open>except\<close> around \<^verbatim>\<open>json.loads\<close> keeps the
  previous context.
\<close>

fun parse_parts ::
  "py_lib \<Rightarrow> string list \<Rightarrow> int \<times> string \<times> py_value \<Rightarrow> string + (int \<times> string \<times> py_value)"
where
  "parse_parts L [] st = Inr st"
| "parse_parts L (part # parts) (uid, actual_query, ctx) =
     (if py_in ''user_id:'' part then
        (case split ''user_id:'' part of
           _ # x # _ \<Rightarrow>
             (case py_int L x of
                Inl e \<Rightarrow> Inl e
              | Inr n \<Rightarrow> parse_parts L parts (n, actual_query, ctx))
         | _ \<Rightarrow> Inl ''list index out of range'')
      else if py_in ''query:'' part then
        (case split ''query:'' part of
           _ # x # _ \<Rightarrow> parse_parts L parts (uid, x, ctx)
         | _ \<Rightarrow> Inl ''list index out of range'')
      else if py_in ''context:'' part then
        (case split ''context:'' part of
           _ # x # _ \<Rightarrow>
             parse_parts L parts
               (uid, actual_query, case json_loads L x of Some v \<Rightarrow> v | None \<Rightarrow> ctx)
         | _ \<Rightarrow> parse_parts L parts (uid, actual_query, ctx))
      else parse_parts L parts (uid, actual_query, ctx))"

definition agent_analyze_preferences :: "py_lib \<Rightarrow> string \<Rightarrow> string" where
  "agent_analyze_preferences L query =
     (case parse_parts L (split ''|'' query) (1, query, Dict []) of
        Inl e \<Rightarrow> ''Preference analysis failed: '' @ e
      | Inr (uid, actual_query, Other e) \<Rightarrow> ''Preference analysis failed: '' @ e
      | Inr (uid, actual_query, Dict ctx) \<Rightarrow>
          (let preferences = dict_get ctx ''preferences'' [];
               query_lower = lower actual_query;
               tv_answer =
                 (if py_in ''tv series'' query_lower \<or> py_in ''series'' query_lower then
                    (case find (\<lambda>p. py_in ''tv_series'' (dict_get p ''key'' '''')
                                  \<or> py_in ''tv series'' (lower (dict_get p ''value'' '''')))
                            preferences of
                       Some tv_pref \<Rightarrow>
                         if tv_pref \<noteq> [] then
                           Some (''Your favorite TV series is: **''
                             @ strip (replace ''tv series: '' ''''
                                        (dict_get tv_pref ''value'' ''''))
                             @ ''**'')
                         else None
                     | None \<Rightarrow> None)
                  else None);
               singers_answer =
                 (if py_in ''singers'' query_lower \<and> \<not> py_in ''singer?'' query_lower then
                    (case find (\<lambda>p. py_in ''favorite_singers'' (dict_get p ''key'' '''')
                                  \<or> py_in ''singers:'' (dict_get p ''value'' ''''))
                            preferences of
                       Some singers_pref \<Rightarrow>
                         if singers_pref \<noteq> [] then
                           Some (''Your favorite singers are: **''
                             @ strip (replace ''singers: '' ''''
                                        (dict_get singers_pref ''value'' ''''))
                             @ ''**'')
                         else None
                     | None \<Rightarrow> None)
                  else None);
               album_answer =
                 (if py_in ''album'' query_lower then
                    (case find (\<lambda>p. py_in ''favorite_album'' (dict_get p ''key'' '''')
                                  \<or> py_in ''my beautiful dark twisted fantasy''
                                       (lower (dict_get p ''value'' '''')))
                            preferences of
                       Some album_pref \<Rightarrow>
                         if album_pref \<noteq> [] then
                           Some (''Your favorite album is: ''
                             @ ''**My Beautiful Dark Twisted Fantasy by Kanye West**'')
                         else None
                     | None \<Rightarrow> None)
                  else None) in
           if preferences = [] then ''I don't have information about your preferences yet.''
           else (case tv_answer of
                   Some r \<Rightarrow> r
                 | None \<Rightarrow>
                    (case singers_answer of
                       Some r \<Rightarrow> r
                     | None \<Rightarrow>
                        if py_in ''singer?'' query_lower
                        then ''I don't know your favorite singer.''
                        else (case album_answer of
                                Some r \<Rightarrow> r
                              | None \<Rightarrow>
                                 ''I found '' @ str_nat (length preferences)
                                 @ '' preferences in your profile.'')))))"

section \<open>Exceptions\<close>

text \<open>
  A computation that may raise is a value of \<open>string + 'a\<close>: \<open>Inl e\<close> is an exception
  whose \<^verbatim>\<open>str(e)\<close> is \<open>e\<close>, \<open>Inr v\<close> is the value \<open>v\<close>. The blanket handler
  \<^verbatim>\<open>try: body except Exception as e: return handler(e)\<close> is \<open>try_except\<close>.
\<close>

definition try_except :: "string + 'a \<Rightarrow> (string \<Rightarrow> 'a) \<Rightarrow> 'a" where
  "try_except body handler = (case body of Inl e \<Rightarrow> handler e | Inr v \<Rightarrow> v)"

text \<open>\<^verbatim>\<open>xs[i]\<close> raises \<^verbatim>\<open>IndexError\<close> out of range.\<close>

definition py_index :: "'a list \<Rightarrow> nat \<Rightarrow> string + 'a" where
  "py_index xs i = (if i < length xs then Inr (xs ! i) else Inl ''list index out of range'')"

section \<open>The memory store adapters\<close>

text \<open>
  The vector store is an external collaborator. Its collection object is a parameter of
  the model: \<open>add\<close> and \<open>query\<close> say, for each call, whether the client raises or what
  it returns. The wall clock is a parameter too: \<open>now_iso\<close> is the text of
  \<^verbatim>\<open>datetime.now().isoformat()\<close>, \<open>now_ts\<close> the float of
  \<^verbatim>\<open>datetime.now().timestamp()\<close> and \<open>float_str\<close> the text Python formats a float as.
\<close>

datatype meta_value = MInt int | MStr string

type_synonym metadata = "(string \<times> meta_value) list"

record query_result =
  documents :: "string list list"
  metadatas :: "metadata list list"
  distances :: "real list list"

record collection =
  add :: "string list \<Rightarrow> metadata list \<Rightarrow> string list \<Rightarrow> string + unit"
  query :: "string list \<Rightarrow> nat \<Rightarrow> int \<Rightarrow> string + query_result"

text \<open>\<^verbatim>\<open>{**base, **extra}\<close>: the entries of \<open>extra\<close> override those of \<open>base\<close>.\<close>

definition dict_merge :: "('k \<times> 'v) list \<Rightarrow> ('k \<times> 'v) list \<Rightarrow> ('k \<times> 'v) list" where
  "dict_merge base extra = foldl (\<lambda>d (k, v). AList.update k v d) base extra"

text \<open>\<^verbatim>\<open>LoomAIOrchestrator.store_memory\<close> of \<^verbatim>\<open>python_ai_service/main.py\<close>.\<close>

definition memory_id :: "('ts \<Rightarrow> string) \<Rightarrow> int \<Rightarrow> 'ts \<Rightarrow> string" where
  "memory_id float_str uid now_ts = ''memory_'' @ str_int uid @ ''_'' @ float_str now_ts"

definition store_memory ::
  "collection option \<Rightarrow> ('ts \<Rightarrow> string) \<Rightarrow> string \<Rightarrow> 'ts
     \<Rightarrow> int \<Rightarrow> string \<Rightarrow> metadata option \<Rightarrow> bool"
where
  "store_memory memory_collection float_str now_iso now_ts uid content meta =
     (case memory_collection of
        None \<Rightarrow> False
      | Some coll \<Rightarrow>
          try_except
            (case add coll [content]
                    [dict_merge [(''user_id'', MInt uid), (''timestamp'', MStr now_iso)]
                       (case meta of None \<Rightarrow> [] | Some m \<Rightarrow> m)]
                    [memory_id float_str uid now_ts] of
               Inl e \<Rightarrow> Inl e
             | Inr u \<Rightarrow> Inr True)
            (\<lambda>e. False))"

text \<open>
  \<^verbatim>\<open>ChromaDBManager.store_conversation\<close>. The method has no \<^verbatim>\<open>return\<close> with a value:
  every path, the handler's included, ends in \<^verbatim>\<open>None\<close>. \<open>py_ret\<close> keeps \<^verbatim>\<open>None\<close>
  apart from the booleans.
\<close>

datatype py_ret = PyNone | PyBool bool

definition conversation_id :: "('ts \<Rightarrow> string) \<Rightarrow> int \<Rightarrow> 'ts \<Rightarrow> string" where
  "conversation_id float_str uid now_ts = ''user_'' @ str_int uid @ ''_'' @ float_str now_ts"

text \<open>\<^verbatim>\<open>json.dumps\<close> of a list of tool names.\<close>

definition dumps_names :: "string list \<Rightarrow> string" where
  "dumps_names names =
     ''['' @ join '', '' (map (\<lambda>n. [CHR 0x22] @ n @ [CHR 0x22]) names) @ '']''"

definition store_conversation ::
  "collection option \<Rightarrow> ('ts \<Rightarrow> string) \<Rightarrow> string \<Rightarrow> 'ts
     \<Rightarrow> int \<Rightarrow> string \<Rightarrow> string \<Rightarrow> string \<Rightarrow> string list \<Rightarrow> py_ret"
where
  "store_conversation coll_opt float_str now_iso now_ts uid msg resp tt tools =
     try_except
       (case coll_opt of
          None \<Rightarrow> Inr PyNone
        | Some coll \<Rightarrow>
            (let doc_id = conversation_id float_str uid now_ts;
                 conversation_text = ''User: '' @ msg @ [CHR 0x0A] @ ''Assistant: '' @ resp;
                 meta = [(''user_id'', MInt uid), (''timestamp'', MStr now_iso),
                         (''task_type'', MStr tt), (''tools_used'', MStr (dumps_names tools)),
                         (''message'', MStr msg), (''response'', MStr resp)] in
             case add coll [conversation_text] [meta] [doc_id] of
               Inl e \<Rightarrow> Inl e
             | Inr u \<Rightarrow> Inr PyNone))
       (\<lambda>e. PyNone)"

text \<open>\<^verbatim>\<open>ChromaDBManager.search_memory\<close> and the loop that formats the results.\<close>

record memory_hit =
  content :: string
  hit_metadata :: metadata
  distance :: real

fun format_results :: "nat \<Rightarrow> string list \<Rightarrow> query_result \<Rightarrow> string + memory_hit list" where
  "format_results i [] results = Inr []"
| "format_results i (doc # docs) results =
     (case (if metadatas results \<noteq> [] then py_index (hd (metadatas results)) i
            else Inr []) of
        Inl e \<Rightarrow> Inl e
      | Inr md \<Rightarrow>
          (case (if distances results \<noteq> [] then py_index (hd (distances results)) i
                 else Inr 0) of
             Inl e \<Rightarrow> Inl e
           | Inr dst \<Rightarrow>
               (case format_results (Suc i) docs results of
                  Inl e \<Rightarrow> Inl e
                | Inr hits \<Rightarrow>
                    Inr (\<lparr>content = doc, hit_metadata = md, distance = dst\<rparr> # hits))))"

definition search_memory :: "collection option \<Rightarrow> int \<Rightarrow> string \<Rightarrow> nat \<Rightarrow> memory_hit list" where
  "search_memory coll_opt uid q n_results =
     try_except
       (case coll_opt of
          None \<Rightarrow> Inr []
        | Some coll \<Rightarrow>
            (case query coll [q] n_results uid of
               Inl e \<Rightarrow> Inl e
             | Inr results \<Rightarrow>
                 if documents results = [] then Inr []
                 else format_results 0 (hd (documents results)) results))
       (\<lambda>e. [])"

text \<open>
  \<^verbatim>\<open>ChromaDBManager.store_user_context\<close>, which writes into the same collection as
  \<^verbatim>\<open>store_conversation\<close>; \<open>dumps\<close> is \<^verbatim>\<open>json.dumps\<close> with its indentation.
\<close>

definition context_id :: "('ts \<Rightarrow> string) \<Rightarrow> int \<Rightarrow> 'ts \<Rightarrow> string" where
  "context_id float_str uid now_ts = ''context_'' @ str_int uid @ ''_'' @ float_str now_ts"

definition store_user_context ::
  "collection option \<Rightarrow> (py_context \<Rightarrow> string) \<Rightarrow> ('ts \<Rightarrow> string) \<Rightarrow> string \<Rightarrow> 'ts
     \<Rightarrow> int \<Rightarrow> py_context \<Rightarrow> py_ret"
where
  "store_user_context coll_opt dumps float_str now_iso now_ts uid ctx =
     try_except
       (case coll_opt of
          None \<Rightarrow> Inr PyNone
        | Some coll \<Rightarrow>
            (let doc_id = context_id float_str uid now_ts;
                 context_text = dumps ctx;
                 meta = [(''user_id'', MInt uid), (''timestamp'', MStr now_iso),
                         (''type'', MStr ''user_context''),
                         (''preferences_count'',
                          MInt (int (length (dict_get ctx ''preferences'' [])))),
                         (''notes_count'', MInt (int (length (dict_get ctx ''notes'' [])))),
                         (''events_count'', MInt (int (length (dict_get ctx ''events'' []))))] in
             case add coll [context_text] [meta] [doc_id] of
               Inl e \<Rightarrow> Inl e
             | Inr u \<Rightarrow> Inr PyNone))
       (\<lambda>e. PyNone)"

text \<open>A store whose every call raises, and one that accepts every write.\<close>

definition failing_collection :: collection where
  "failing_collection =
     \<lparr>add = (\<lambda>docs metas ids. Inl ''Connection refused''),
      query = (\<lambda>texts n uid. Inl ''Connection refused'')\<rparr>"

definition accepting_collection :: collection where
  "accepting_collection =
     \<lparr>add = (\<lambda>docs metas ids. Inr ()),
      query = (\<lambda>texts n uid. Inr \<lparr>documents = [], metadatas = [], distances = []\<rparr>)\<rparr>"

section \<open>The tools of \<^verbatim>\<open>ai_assistant/tools\<close>\<close>

text \<open>
  Each tool object carries \<^verbatim>\<open>is_available\<close>. The operations behind the tools (the
  HTTP request, the Google API calls) are external: they are parameters that say, for
  each call, whether it raises or what it returns. Texts that are not ASCII are
  given as their UTF-8 bytes.
\<close>

record tool_status =
  is_available :: bool

subsection \<open>\<^verbatim>\<open>WebSearchTool\<close>\<close>

record web_search_tool = tool_status +
  api_key :: "string option"
  base_url :: string

record http_response =
  status_code :: int
  json :: "string + py_context"

text \<open>
  \<^verbatim>\<open>WebSearchTool.__init__\<close>, with \<open>getenv\<close> for \<^verbatim>\<open>os.getenv\<close>.
\<close>

definition web_search_init :: "(string \<Rightarrow> string option) \<Rightarrow> web_search_tool" where
  "web_search_init getenv =
     \<lparr>is_available = (getenv ''TAVILY_API_KEY'' \<noteq> None),
      api_key = getenv ''TAVILY_API_KEY'',
      base_url = ''https://api.tavily.com''\<rparr>"

definition format_result :: "py_record \<Rightarrow> string" where
  "format_result result =
     ''**'' @ dict_get result ''title'' ''No title'' @ ''**'' @ [CHR 0x0A]
     @ dict_get result ''content'' ''No content'' @ [CHR 0x0A]
     @ ''Source: '' @ dict_get result ''url'' ''No URL''"

text \<open>
  \<^verbatim>\<open>WebSearchTool.search\<close>; \<open>post url key q\<close> is \<^verbatim>\<open>requests.post\<close> with the headers
  and the payload the method builds from the key and the query.
\<close>

definition search ::
  "(string \<Rightarrow> string option \<Rightarrow> string \<Rightarrow> string + http_response)
     \<Rightarrow> web_search_tool \<Rightarrow> string \<Rightarrow> string"
where
  "search post self q =
     try_except
       (if \<not> is_available self then Inr (''Web search not available. Query was: '' @ q)
        else
          (case post (base_url self @ ''/search'') (api_key self) q of
             Inl e \<Rightarrow> Inl e
           | Inr resp \<Rightarrow>
               if status_code resp = 200 then
                 (case json resp of
                    Inl e \<Rightarrow> Inl e
                  | Inr data \<Rightarrow>
                      (let results = dict_get data ''results'' [] in
                       if results \<noteq> [] then
                         Inr (''Web search results for '' @ [CHR 0x27] @ q @ [CHR 0x27]
                              @ '':'' @ [CHR 0x0A, CHR 0x0A]
                              @ join [CHR 0x0A, CHR 0x0A] (map format_result results))
                       else Inr (''No results found for '' @ [CHR 0x27] @ q @ [CHR 0x27])))
               else Inr (''Web search failed with status '' @ str_int (status_code resp))))
       (\<lambda>e. ''Web search error: '' @ e)"

subsection \<open>\<^verbatim>\<open>GoogleCalendarTool\<close> and \<^verbatim>\<open>EmailReaderTool\<close>: the tool objects\<close>

record 'svc google_tool = tool_status +
  credentials_path :: "string option"
  service :: "'svc option"

subsection \<open>\<^verbatim>\<open>GoogleCalendarTool.manage_calendar\<close>\<close>

text \<open>
  An event of the Calendar API: \<open>None\<close> in \<open>ev_start\<close> or \<open>ev_end\<close> is a missing key,
  which \<^verbatim>\<open>event['start']\<close> answers with a \<^verbatim>\<open>KeyError\<close>. The time window of a listing
  is computed from the clock; the service sees it as \<open>Upcoming days\<close> or \<open>Today\<close>.
\<close>

record cal_event =
  ev_summary :: "string option"
  ev_start :: "py_record option"
  ev_end :: "py_record option"

datatype time_window = Upcoming nat | Today

record calendar_service =
  events_list :: "time_window \<Rightarrow> string + cal_event list"
  events_insert :: "string \<Rightarrow> string \<Rightarrow> string + cal_event"











subsection \<open>\<^verbatim>\<open>EmailReaderTool.read_emails\<close>\<close>

text \<open>
  The Gmail service: \<open>messages_list q max_results\<close> is
  \<^verbatim>\<open>users().messages().list(...).execute()\<close> and \<open>messages_get id\<close> is
  \<^verbatim>\<open>users().messages().get(...).execute()\<close>. A message without a payload makes
  \<^verbatim>\<open>message['payload']\<close> raise a \<^verbatim>\<open>KeyError\<close>.
\<close>

record list_result =
  messages :: "string list"
  resultSizeEstimate :: nat

record gmail_message =
  payload :: "(string \<times> string) list option"
  snippet :: string

record gmail_service =
  messages_list :: "string option \<Rightarrow> nat option \<Rightarrow> string + list_result"
  messages_get :: "string \<Rightarrow> string + gmail_message"












text \<open>Services whose every call raises the same exception.\<close>

definition raising_calendar :: "string \<Rightarrow> calendar_service" where
  "raising_calendar e = \<lparr>events_list = (\<lambda>w. Inl e), events_insert = (\<lambda>t d. Inl e)\<rparr>"

definition raising_gmail :: "string \<Rightarrow> gmail_service" where
  "raising_gmail e = \<lparr>messages_list = (\<lambda>q m. Inl e), messages_get = (\<lambda>i. Inl e)\<rparr>"






section \<open>The search tool of \<^verbatim>\<open>python_ai_service/tools/web_search.py\<close>\<close>










section \<open>Start-up of the Google tools and the health endpoints\<close>

text \<open>
  \<^verbatim>\<open>_initialize_service\<close> talks to the file system and to Google's client
  libraries. They are the parameter \<open>api\<close>: what the imports, the token file, the
  credential file, the login flow and the service builder do when called. A
  credential file that is absent makes \<open>from_client_secrets_file\<close> raise.
\<close>

record creds =
  valid :: bool
  expired :: bool
  refresh_token :: "string option"

record ('flow, 'svc) google_api =
  import_error :: "string option"
  token_exists :: bool
  from_authorized_user_file :: "string + creds"
  refresh :: "creds \<Rightarrow> string + creds"
  from_client_secrets_file :: "string option \<Rightarrow> string + 'flow"
  run_local_server :: "'flow \<Rightarrow> string + creds"
  write_token :: "creds \<Rightarrow> string + unit"
  build :: "creds \<Rightarrow> string + 'svc"

text \<open>
  The part of \<^verbatim>\<open>_initialize_service\<close> that obtains credentials when the saved ones
  are missing or not valid: refresh them, or run the login flow from the credential
  file; then save them.
\<close>

definition obtain_creds ::
  "('flow, 'svc) google_api \<Rightarrow> string option \<Rightarrow> creds option \<Rightarrow> string + creds"
where
  "obtain_creds api path saved =
     (case (case saved of
              Some c \<Rightarrow>
                if expired c \<and> refresh_token c \<noteq> None \<and> refresh_token c \<noteq> Some ''''
                then refresh api c
                else (case from_client_secrets_file api path of
                        Inl e \<Rightarrow> Inl e
                      | Inr flow \<Rightarrow> run_local_server api flow)
            | None \<Rightarrow>
                (case from_client_secrets_file api path of
                   Inl e \<Rightarrow> Inl e
                 | Inr flow \<Rightarrow> run_local_server api flow)) of
        Inl e \<Rightarrow> Inl e
      | Inr c \<Rightarrow> (case write_token api c of Inl e \<Rightarrow> Inl e | Inr u \<Rightarrow> Inr c))"

definition initialize_service ::
  "('flow, 'svc) google_api \<Rightarrow> 'svc google_tool \<Rightarrow> 'svc google_tool"
where
  "initialize_service api self =
     try_except
       (case import_error api of
          Some e \<Rightarrow> Inl e
        | None \<Rightarrow>
            (case (if token_exists api
                   then (case from_authorized_user_file api of
                           Inl e \<Rightarrow> Inl e
                         | Inr c \<Rightarrow> Inr (Some c))
                   else Inr None) of
               Inl e \<Rightarrow> Inl e
             | Inr saved \<Rightarrow>
                 (case (case saved of
                          Some c \<Rightarrow>
                            if valid c then Inr c
                            else obtain_creds api (credentials_path self) saved
                        | None \<Rightarrow> obtain_creds api (credentials_path self) saved) of
                    Inl e \<Rightarrow> Inl e
                  | Inr c \<Rightarrow>
                      (case build api c of
                         Inl e \<Rightarrow> Inl e
                       | Inr svc \<Rightarrow> Inr (self\<lparr>service := Some svc\<rparr>)))))
       (\<lambda>e. self\<lparr>is_available := False\<rparr>)"

text \<open>
  \<^verbatim>\<open>GoogleCalendarTool.__init__\<close> and \<^verbatim>\<open>EmailReaderTool.__init__\<close> (they differ in the
  scopes and the token file only, which belong to \<open>api\<close>), and \<^verbatim>\<open>check_status\<close>.
\<close>

definition google_tool_init ::
  "(string \<Rightarrow> string option) \<Rightarrow> ('flow, 'svc) google_api \<Rightarrow> 'svc google_tool"
where
  "google_tool_init getenv api =
     (let self = \<lparr>is_available = (getenv ''GOOGLE_CREDENTIALS_PATH'' \<noteq> None),
                  credentials_path = getenv ''GOOGLE_CREDENTIALS_PATH'',
                  service = None\<rparr> in
      if is_available self then initialize_service api self else self)"

definition check_status :: "'a tool_status_scheme \<Rightarrow> bool" where
  "check_status self = is_available self"

text \<open>
  The status map of a health endpoint is a nest of dictionaries whose leaves are
  booleans or texts; \<open>lookup_path\<close> reads the entry under a path of keys.
\<close>

datatype status_value = Flag bool | Text string | Nested "(string \<times> status_value) list"

fun lookup_path :: "string list \<Rightarrow> status_value \<Rightarrow> status_value option" where
  "lookup_path [] v = Some v"
| "lookup_path (k # ks) (Nested m) =
     (case map_of m k of Some v \<Rightarrow> lookup_path ks v | None \<Rightarrow> None)"
| "lookup_path (k # ks) (Flag b) = None"
| "lookup_path (k # ks) (Text t) = None"

text \<open>
  \<^verbatim>\<open>health_check\<close> of \<^verbatim>\<open>ai_assistant/main.py\<close>. It builds the three tools anew,
  so it reads the environment \<open>getenv\<close> and the worlds \<open>cal_api\<close> and \<open>mail_api\<close>;
  \<open>ollama_ok\<close> and \<open>chroma_ok\<close> are what the agent and the memory manager report.
\<close>

definition health_check ::
  "(string \<Rightarrow> string option) \<Rightarrow> ('f, calendar_service) google_api
     \<Rightarrow> ('g, gmail_service) google_api \<Rightarrow> bool \<Rightarrow> bool \<Rightarrow> string \<Rightarrow> status_value"
where
  "health_check getenv cal_api mail_api ollama_ok chroma_ok now_iso =
     Nested
       [(''status'', Text ''healthy''),
        (''timestamp'', Text now_iso),
        (''services'',
         Nested
           [(''langchain'', Flag True),
            (''ollama'', Flag ollama_ok),
            (''chromadb'', Flag chroma_ok),
            (''tools'',
             Nested
               [(''web_search'', Flag (check_status (web_search_init getenv))),
                (''calendar'', Flag (check_status (google_tool_init getenv cal_api))),
                (''email'', Flag (check_status (google_tool_init getenv mail_api))),
                (''image_analysis'', Flag False)])])]"

text \<open>
  \<^verbatim>\<open>health_check\<close> of \<^verbatim>\<open>python_ai_service/simple_main.py\<close>. The function reads
  nothing; the environment of the process is passed only to say so.
\<close>

definition simple_health_check :: "(string \<Rightarrow> string option) \<Rightarrow> string \<Rightarrow> status_value" where
  "simple_health_check getenv now_iso =
     Nested
       [(''status'', Text ''healthy''),
        (''timestamp'', Text now_iso),
        (''services'',
         Nested
           [(''langchain'', Text ''initialized''),
            (''ollama'', Text ''pending''),
            (''chromadb'', Text ''in_memory''),
            (''tavily'', Text ''configured''),
            (''google_apis'', Text ''configured''),
            (''clip'', Text ''pending'')])]"

text \<open>The specification's "false or absent", for an entry of a status map.\<close>

definition spec_false_or_absent :: "status_value option \<Rightarrow> bool" where
  "spec_false_or_absent entry = (entry = None \<or> entry = Some (Flag False))"

text \<open>
  A machine with no saved token and no credential file, whose libraries import and
  would build a service, and an environment with no variable set.
\<close>

definition no_credentials_api :: "'svc \<Rightarrow> (unit, 'svc) google_api" where
  "no_credentials_api svc =
     \<lparr>import_error = None, token_exists = False,
      from_authorized_user_file = Inl ''[Errno 2] No such file or directory: token.json'',
      refresh = (\<lambda>c. Inr c),
      from_client_secrets_file =
        (\<lambda>path. Inl (''[Errno 2] No such file or directory: ''
                       @ (case path of Some p \<Rightarrow> p | None \<Rightarrow> ''None''))),
      run_local_server = (\<lambda>flow. Inr \<lparr>valid = True, expired = False, refresh_token = None\<rparr>),
      write_token = (\<lambda>c. Inr ()),
      build = (\<lambda>c. Inr svc)\<rparr>"

definition empty_environment :: "string \<Rightarrow> string option" where
  "empty_environment name = None"

section \<open>Example inputs\<close>

text \<open>
  A preference record, a context and a request as a client sends them, and the tool
  input \<^verbatim>\<open>_direct_tool_routing\<close> builds from them, with the JSON text of the context
  and a \<^verbatim>\<open>json.loads\<close> and an \<^verbatim>\<open>int\<close> that read exactly these texts.
\<close>

definition example_pref :: py_record where
  "example_pref = [(''key'', ''tv_series''), (''value'', ''tv series: Breaking Bad'')]"

definition example_context :: py_context where
  "example_context = [(''preferences'', [example_pref])]"

definition example_input :: user_input where
  "example_input =
     \<lparr>message = ''What is my favorite series?'', user_id = 7,
      user_context = example_context\<rparr>"

definition example_json :: string where
  "example_json =
     ''{\"preferences\": [{\"key\": \"tv_series\", \"value\": \"tv series: Breaking Bad\"}]}''"

definition example_lib :: py_lib where
  "example_lib =
     \<lparr>json_loads = (\<lambda>s. if s = example_json then Some (Dict example_context) else None),
      py_int = (\<lambda>s. if s = ''7'' then Inr 7
                     else Inl (''invalid literal for int() with base 10: '' @ s))\<rparr>"

definition example_query :: string where
  "example_query = ''user_id:7|query:What is my favorite series?|context:'' @ example_json"

section \<open>Facts about strings\<close>

lemma lower_char_idem: "lower_char (lower_char c) = lower_char c"
  by (simp add: lower_char_def)

lemma lower_idem: "lower (lower s) = lower s"
  by (simp add: lower_def lower_char_idem)




section \<open>The classifiers' labels\<close>

text \<open>
  C1, as stated, fails on \<^verbatim>\<open>simple_main.detect_task_type\<close>: a message about a meeting
  is labelled \<open>calendar\<close>, which is not one of the labels the specification lists.
\<close>

theorem C1_simple_label_outside_spec:
  "simple_detect_task_type ''Schedule a meeting'' = ''calendar''
   \<and> simple_detect_task_type ''Schedule a meeting'' \<notin> spec_labels"
  by (simp add: simple_detect_task_type_def any_in_def lower_def lower_char_def spec_labels_def)

text \<open>
  C1 (amended). Every classifier returns one label for every message. The classifier
  of \<^verbatim>\<open>proper_main\<close> returns one of the seven labels \<open>preference_query\<close>,
  \<open>web_search\<close>, \<open>calendar_management\<close>, \<open>email_management\<close>, \<open>image_analysis\<close>,
  \<open>memory_retrieval\<close>, \<open>general_chat\<close>; the agent's classifier returns one of these
  without \<open>memory_retrieval\<close>; the classifiers of \<^verbatim>\<open>simple_main\<close> and \<^verbatim>\<open>main\<close> return
  one of \<open>web_search\<close>, \<open>calendar\<close>, \<open>email\<close>, \<open>image_analysis\<close>, \<open>general_chat\<close>. No
  classifier returns \<open>error\<close>. In each variant an ASCII message in which none of that
  variant's keywords occurs is labelled \<open>general_chat\<close>.
\<close>

theorem C1_labels:
  "proper_detect_task_type m \<in> proper_labels
   \<and> agent_detect_task_type m \<in> agent_labels
   \<and> simple_detect_task_type m \<in> short_labels
   \<and> main_detect_task_type m \<in> short_labels
   \<and> ''error'' \<notin> proper_labels \<and> ''error'' \<notin> agent_labels \<and> ''error'' \<notin> short_labels
   \<and> ''memory_retrieval'' \<notin> agent_labels
   \<and> (is_ascii m \<and> \<not> any_in proper_keywords (lower m)
        \<longrightarrow> proper_detect_task_type m = ''general_chat'')
   \<and> (is_ascii m \<and> \<not> any_in agent_keywords (lower m)
        \<longrightarrow> agent_detect_task_type m = ''general_chat'')
   \<and> (is_ascii m \<and> \<not> any_in simple_keywords (lower m)
        \<longrightarrow> simple_detect_task_type m = ''general_chat''
            \<and> main_detect_task_type m = ''general_chat'')"
proof -
  have l1: "proper_detect_task_type m \<in> proper_labels"
    by (simp add: proper_detect_task_type_def Let_def proper_labels_def)
  have l2: "agent_detect_task_type m \<in> agent_labels"
    by (simp add: agent_detect_task_type_def Let_def agent_labels_def)
  have l3: "simple_detect_task_type m \<in> short_labels"
    by (simp add: simple_detect_task_type_def Let_def short_labels_def)
  have l4: "main_detect_task_type m \<in> short_labels"
    by (simp add: main_detect_task_type_def Let_def short_labels_def)
  have n: "''error'' \<notin> proper_labels" "''error'' \<notin> agent_labels"
    "''error'' \<notin> short_labels" "''memory_retrieval'' \<notin> agent_labels"
    by (simp_all add: proper_labels_def agent_labels_def short_labels_def)
  have g1: "proper_detect_task_type m = ''general_chat''"
    if "\<not> any_in proper_keywords (lower m)"
    using that by (simp add: proper_detect_task_type_def proper_keywords_def any_in_def)
  have g2: "agent_detect_task_type m = ''general_chat''"
    if "\<not> any_in agent_keywords (lower m)"
    using that by (simp add: agent_detect_task_type_def agent_keywords_def any_in_def)
  have g3: "simple_detect_task_type m = ''general_chat''
            \<and> main_detect_task_type m = ''general_chat''"
    if "\<not> any_in simple_keywords (lower m)"
    using that
    by (simp add: simple_detect_task_type_def main_detect_task_type_def
        simple_keywords_def any_in_def)
  from l1 l2 l3 l4 n g1 g2 g3 show ?thesis by blast
qed

theorem C1_labels_witness:
  "is_ascii ''Good Morning''
   \<and> \<not> any_in proper_keywords (lower ''Good Morning'')
   \<and> \<not> any_in agent_keywords (lower ''Good Morning'')
   \<and> \<not> any_in simple_keywords (lower ''Good Morning'')
   \<and> proper_detect_task_type ''Good Morning'' = ''general_chat''
   \<and> agent_detect_task_type ''Good Morning'' = ''general_chat''
   \<and> simple_detect_task_type ''Good Morning'' = ''general_chat''
   \<and> main_detect_task_type ''Good Morning'' = ''general_chat''"
proof -
  have a: "is_ascii ''Good Morning''"
    by (simp add: is_ascii_def)
  have low: "lower ''Good Morning'' = ''good morning''"
    by (simp add: lower_def lower_char_def)
  have h1: "\<not> any_in proper_keywords (lower ''Good Morning'')"
    unfolding low by (simp add: proper_keywords_def any_in_def)
  have h2: "\<not> any_in agent_keywords (lower ''Good Morning'')"
    unfolding low by (simp add: agent_keywords_def any_in_def)
  have h3: "\<not> any_in simple_keywords (lower ''Good Morning'')"
    unfolding low by (simp add: simple_keywords_def any_in_def)
  from a h1 h2 h3 C1_labels [of "''Good Morning''"] show ?thesis by blast
qed

section \<open>Web-search routing\<close>

text \<open>
  C2, as stated, fails on \<^verbatim>\<open>simple_main.detect_task_type\<close>, which checks neither
  \<open>weather\<close> nor \<open>news\<close>: a question about the weather without any preference keyword
  is labelled \<open>general_chat\<close>.
\<close>

theorem C2_simple_weather_not_web_search:
  "is_ascii ''What is the weather today?''
   \<and> any_in [''weather'', ''news'', ''search''] (lower ''What is the weather today?'')
   \<and> \<not> any_in [''favorite'', ''prefer'', ''like''] (lower ''What is the weather today?'')
   \<and> simple_detect_task_type ''What is the weather today?'' = ''general_chat''
   \<and> simple_detect_task_type ''What is the weather today?'' \<noteq> ''web_search''"
  by (simp add: simple_detect_task_type_def any_in_def lower_def lower_char_def is_ascii_def)

text \<open>
  C2 (amended). In the classifiers of \<^verbatim>\<open>proper_main\<close> and of the assistant agent, every
  ASCII message whose lowercase form contains \<open>weather\<close>, \<open>news\<close> or \<open>search\<close> and none
  of \<open>favorite\<close>, \<open>prefer\<close>, \<open>like\<close> is labelled \<open>web_search\<close>. In the classifiers of
  \<^verbatim>\<open>simple_main\<close> and \<^verbatim>\<open>main\<close>, every ASCII message whose lowercase form contains
  \<open>search\<close> is labelled \<open>web_search\<close>.
\<close>

theorem C2_web_search:
  "(is_ascii m \<and> any_in [''weather'', ''news'', ''search''] (lower m)
      \<and> \<not> any_in [''favorite'', ''prefer'', ''like''] (lower m)
     \<longrightarrow> proper_detect_task_type m = ''web_search''
         \<and> agent_detect_task_type m = ''web_search'')
   \<and> (is_ascii m \<and> py_in ''search'' (lower m)
     \<longrightarrow> simple_detect_task_type m = ''web_search''
         \<and> main_detect_task_type m = ''web_search'')"
  by (simp add: proper_detect_task_type_def agent_detect_task_type_def
      simple_detect_task_type_def main_detect_task_type_def any_in_def)

theorem C2_web_search_witness:
  "is_ascii ''Search the NEWS''
   \<and> any_in [''weather'', ''news'', ''search''] (lower ''Search the NEWS'')
   \<and> \<not> any_in [''favorite'', ''prefer'', ''like''] (lower ''Search the NEWS'')
   \<and> py_in ''search'' (lower ''Search the NEWS'')
   \<and> proper_detect_task_type ''Search the NEWS'' = ''web_search''
   \<and> agent_detect_task_type ''Search the NEWS'' = ''web_search''
   \<and> simple_detect_task_type ''Search the NEWS'' = ''web_search''
   \<and> main_detect_task_type ''Search the NEWS'' = ''web_search''"
proof -
  have a: "is_ascii ''Search the NEWS''"
    by (simp add: is_ascii_def)
  have low: "lower ''Search the NEWS'' = ''search the news''"
    by (simp add: lower_def lower_char_def)
  have h1: "any_in [''weather'', ''news'', ''search''] (lower ''Search the NEWS'')"
    unfolding low by (simp add: any_in_def)
  have h2: "\<not> any_in [''favorite'', ''prefer'', ''like''] (lower ''Search the NEWS'')"
    unfolding low by (simp add: any_in_def)
  have h3: "py_in ''search'' (lower ''Search the NEWS'')"
    unfolding low by simp
  from a h1 h2 h3 C2_web_search [of "''Search the NEWS''"] show ?thesis by blast
qed

section \<open>Case invariance of the classifiers\<close>

text \<open>
  C10. Each classifier lowercases the message before any keyword check, so it gives a
  message and its lowercase form the same label.
\<close>

theorem C10_case_invariant:
  "proper_detect_task_type m = proper_detect_task_type (lower m)
   \<and> agent_detect_task_type m = agent_detect_task_type (lower m)
   \<and> simple_detect_task_type m = simple_detect_task_type (lower m)
   \<and> main_detect_task_type m = main_detect_task_type (lower m)"
  by (simp add: proper_detect_task_type_def agent_detect_task_type_def
      simple_detect_task_type_def main_detect_task_type_def lower_idem)

theorem C10_case_invariant_witness:
  "proper_detect_task_type ''I LIKE Jazz'' = proper_detect_task_type (lower ''I LIKE Jazz'')
   \<and> agent_detect_task_type ''I LIKE Jazz'' = agent_detect_task_type (lower ''I LIKE Jazz'')
   \<and> simple_detect_task_type ''I LIKE Jazz'' = simple_detect_task_type (lower ''I LIKE Jazz'')
   \<and> main_detect_task_type ''I LIKE Jazz'' = main_detect_task_type (lower ''I LIKE Jazz'')
   \<and> proper_detect_task_type ''I LIKE Jazz'' = ''preference_query''
   \<and> lower ''I LIKE Jazz'' = ''i like jazz''"
proof -
  have low: "lower ''I LIKE Jazz'' = ''i like jazz''"
    by (simp add: lower_def lower_char_def)
  have p: "proper_detect_task_type ''i like jazz'' = ''preference_query''"
    by (simp add: proper_detect_task_type_def any_in_def lower_def lower_char_def)
  from C10_case_invariant [of "''I LIKE Jazz''"] low p show ?thesis by simp
qed

section \<open>Preference lookup\<close>

lemma breaking_bad_replace:
  "replace ''tv series: '' '''' ''tv series: Breaking Bad'' = ''Breaking Bad''"
  by simp

lemma breaking_bad_strip: "strip ''Breaking Bad'' = ''Breaking Bad''"
  by (simp add: strip_def is_space_def)

lemma breaking_bad_title: "title ''Breaking Bad'' = ''Breaking Bad''"
  by (simp add: title_def is_lower_def is_upper_def upper_char_def lower_char_def)

lemma find_key_nonempty:
  "find (\<lambda>p. py_in ''tv_series'' (dict_get p ''key'' '''')) ps = Some p \<Longrightarrow> p \<noteq> []"
  by (auto simp: find_Some_iff dict_get_def)

lemma find_agent_nonempty:
  "find (\<lambda>p. py_in ''tv_series'' (dict_get p ''key'' '''')
            \<or> py_in ''tv series'' (lower (dict_get p ''value'' ''''))) ps = Some p
   \<Longrightarrow> p \<noteq> []"
  by (auto simp: find_Some_iff dict_get_def lower_def)

lemma find_Some_nonempty: "find P ps = Some p \<Longrightarrow> ps \<noteq> []"
  by (cases ps) auto

lemma analyze_tv:
  assumes "py_in ''series'' (lower m)"
    and "find (\<lambda>p. py_in ''tv_series'' (dict_get p ''key'' '''')) ps = Some p"
    and "dict_get p ''value'' '''' = ''tv series: Breaking Bad''"
  shows "analyze_preferences m ps = Some ''Your favorite TV series is: **Breaking Bad**''"
  using assms find_key_nonempty [OF assms(2)]
  by (simp add: analyze_preferences_def breaking_bad_replace breaking_bad_strip
      breaking_bad_title)

lemma chat_endpoint_tv:
  assumes "py_in ''series'' (lower (message inp))"
    and "find (\<lambda>p. py_in ''tv_series'' (dict_get p ''key'' ''''))
           (dict_get (user_context inp) ''preferences'' []) = Some p"
    and "dict_get p ''value'' '''' = ''tv series: Breaking Bad''"
  shows "response (chat_endpoint inp) = ''Your favorite TV series is: **Breaking Bad**''"
  using analyze_tv [OF assms] by (simp add: chat_endpoint_def Let_def)

lemma chat_tv:
  assumes "py_in ''tv series'' (lower (message inp))
           \<or> py_in ''favorite series'' (lower (message inp))"
    and "find (\<lambda>p. py_in ''tv_series'' (dict_get p ''key'' ''''))
           (dict_get (user_context inp) ''preferences'' []) = Some p"
    and "dict_get p ''value'' '''' = ''tv series: Breaking Bad''"
  shows "\<exists>r. chat inp = Some r
             \<and> response r = ''Your favorite TV series is: **Breaking Bad**''"
  using assms find_key_nonempty [OF assms(2)]
  by (simp add: chat_def Let_def breaking_bad_replace breaking_bad_strip breaking_bad_title)

lemma agent_tv:
  assumes "parse_parts L (split ''|'' q) (1, q, Dict []) = Inr (uid, aq, Dict ctx)"
    and "py_in ''series'' (lower aq)"
    and "find (\<lambda>p. py_in ''tv_series'' (dict_get p ''key'' '''')
                  \<or> py_in ''tv series'' (lower (dict_get p ''value'' '''')))
           (dict_get ctx ''preferences'' []) = Some p"
    and "dict_get p ''value'' '''' = ''tv series: Breaking Bad''"
  shows "agent_analyze_preferences L q = ''Your favorite TV series is: **Breaking Bad**''"
  using assms find_agent_nonempty [OF assms(3)] find_Some_nonempty [OF assms(3)]
  by (simp add: agent_analyze_preferences_def Let_def breaking_bad_replace breaking_bad_strip)

text \<open>
  C4, as stated, fails in two ways. The analyzers answer from the first record whose
  key contains \<open>tv_series\<close>, so a context that holds the Breaking Bad record behind
  another such record is answered from the other one. And \<^verbatim>\<open>start_service.chat\<close>
  enters its TV-series branch on \<open>tv series\<close> or \<open>favorite series\<close> only: a message
  with the bare word \<open>series\<close> gets the default answer.
\<close>

theorem C4_first_record_wins:
  "analyze_preferences ''What is my favorite series?''
     [[(''key'', ''tv_series_watchlist''), (''value'', ''Lost'')],
      [(''key'', ''tv_series''), (''value'', ''tv series: Breaking Bad'')]]
     = Some ''Your favorite TV series is: **Lost**''
   \<and> \<not> py_in ''Breaking Bad'' ''Your favorite TV series is: **Lost**''
   \<and> py_in ''series'' (lower ''Which series do I watch?'')
   \<and> chat \<lparr>message = ''Which series do I watch?'', user_id = 1,
             user_context =
               [(''preferences'',
                 [[(''key'', ''tv_series''), (''value'', ''tv series: Breaking Bad'')]])]\<rparr>
     = Some \<lparr>response = unknown_text, confidence = 0.7, task_type = ''unknown'',
              memory_updated = True, tools_used = [''langchain_agent'']\<rparr>
   \<and> \<not> py_in ''Breaking Bad'' unknown_text"
proof -
  have a: "analyze_preferences ''What is my favorite series?''
     [[(''key'', ''tv_series_watchlist''), (''value'', ''Lost'')],
      [(''key'', ''tv_series''), (''value'', ''tv series: Breaking Bad'')]]
     = Some ''Your favorite TV series is: **Lost**''"
    by (simp add: analyze_preferences_def lower_def lower_char_def dict_get_def
        title_def strip_def is_space_def is_lower_def is_upper_def upper_char_def)
  have b: "\<not> py_in ''Breaking Bad'' ''Your favorite TV series is: **Lost**''"
    by simp
  have c: "py_in ''series'' (lower ''Which series do I watch?'')"
    by (simp add: lower_def lower_char_def)
  have d: "chat \<lparr>message = ''Which series do I watch?'', user_id = 1,
             user_context =
               [(''preferences'',
                 [[(''key'', ''tv_series''), (''value'', ''tv series: Breaking Bad'')]])]\<rparr>
     = Some \<lparr>response = unknown_text, confidence = 0.7, task_type = ''unknown'',
              memory_updated = True, tools_used = [''langchain_agent'']\<rparr>"
    by (simp add: chat_def lower_def lower_char_def dict_get_def)
  have e: "\<not> py_in ''Breaking Bad'' unknown_text"
    by (simp add: unknown_text_def)
  from a b c d e show ?thesis by blast
qed

text \<open>
  C4 (amended). Let the first preference record that the analyzer selects have the
  value \<open>tv series: Breaking Bad\<close>: the first record whose key contains \<open>tv_series\<close>
  and, in the agent, the first whose key contains \<open>tv_series\<close> or whose lowercase
  value contains \<open>tv series\<close>. Then \<^verbatim>\<open>simple_ai\<close> (analyzer and endpoint) answers
  every message containing \<open>series\<close> with a text containing \<open>Breaking Bad\<close>;
  \<^verbatim>\<open>start_service.chat\<close> does so for every message containing \<open>tv series\<close> or
  \<open>favorite series\<close>; and the agent's analyzer does so for every tool input that
  parses into a query containing \<open>series\<close> and a context object.
\<close>

theorem C4_tv_series_preference:
  assumes "dict_get p ''value'' '''' = ''tv series: Breaking Bad''"
  shows
    "(py_in ''series'' (lower m)
        \<and> find (\<lambda>p. py_in ''tv_series'' (dict_get p ''key'' '''')) ps = Some p
       \<longrightarrow> (\<exists>r. analyze_preferences m ps = Some r \<and> py_in ''Breaking Bad'' r))
     \<and> (py_in ''series'' (lower (message inp))
        \<and> find (\<lambda>p. py_in ''tv_series'' (dict_get p ''key'' ''''))
             (dict_get (user_context inp) ''preferences'' []) = Some p
       \<longrightarrow> py_in ''Breaking Bad'' (response (chat_endpoint inp)))
     \<and> ((py_in ''tv series'' (lower (message inp))
           \<or> py_in ''favorite series'' (lower (message inp)))
        \<and> find (\<lambda>p. py_in ''tv_series'' (dict_get p ''key'' ''''))
             (dict_get (user_context inp) ''preferences'' []) = Some p
       \<longrightarrow> (\<exists>r. chat inp = Some r \<and> py_in ''Breaking Bad'' (response r)))
     \<and> (parse_parts L (split ''|'' q) (1, q, Dict []) = Inr (uid, aq, Dict ctx)
        \<and> py_in ''series'' (lower aq)
        \<and> find (\<lambda>p. py_in ''tv_series'' (dict_get p ''key'' '''')
                      \<or> py_in ''tv series'' (lower (dict_get p ''value'' '''')))
             (dict_get ctx ''preferences'' []) = Some p
       \<longrightarrow> py_in ''Breaking Bad'' (agent_analyze_preferences L q))"
proof -
  have bb: "py_in ''Breaking Bad'' ''Your favorite TV series is: **Breaking Bad**''"
    by simp
  have a: "\<exists>r. analyze_preferences m ps = Some r \<and> py_in ''Breaking Bad'' r"
    if "py_in ''series'' (lower m)"
      "find (\<lambda>p. py_in ''tv_series'' (dict_get p ''key'' '''')) ps = Some p"
    using analyze_tv [OF that assms] bb by simp
  have b: "py_in ''Breaking Bad'' (response (chat_endpoint inp))"
    if "py_in ''series'' (lower (message inp))"
      "find (\<lambda>p. py_in ''tv_series'' (dict_get p ''key'' ''''))
         (dict_get (user_context inp) ''preferences'' []) = Some p"
    using chat_endpoint_tv [OF that assms] bb by simp
  have c: "\<exists>r. chat inp = Some r \<and> py_in ''Breaking Bad'' (response r)"
    if "py_in ''tv series'' (lower (message inp))
        \<or> py_in ''favorite series'' (lower (message inp))"
      "find (\<lambda>p. py_in ''tv_series'' (dict_get p ''key'' ''''))
         (dict_get (user_context inp) ''preferences'' []) = Some p"
    using chat_tv [OF that assms] bb by auto
  have d: "py_in ''Breaking Bad'' (agent_analyze_preferences L q)"
    if "parse_parts L (split ''|'' q) (1, q, Dict []) = Inr (uid, aq, Dict ctx)"
      "py_in ''series'' (lower aq)"
      "find (\<lambda>p. py_in ''tv_series'' (dict_get p ''key'' '''')
                    \<or> py_in ''tv series'' (lower (dict_get p ''value'' '''')))
         (dict_get ctx ''preferences'' []) = Some p"
    using agent_tv [OF that assms] bb by simp
  from a b c d show ?thesis by blast
qed

theorem C4_tv_series_preference_witness:
  "dict_get example_pref ''value'' '''' = ''tv series: Breaking Bad''
   \<and> py_in ''series'' (lower (message example_input))
   \<and> py_in ''favorite series'' (lower (message example_input))
   \<and> find (\<lambda>p. py_in ''tv_series'' (dict_get p ''key'' ''''))
        (dict_get (user_context example_input) ''preferences'' []) = Some example_pref
   \<and> (\<exists>r. analyze_preferences (message example_input) [example_pref] = Some r
          \<and> py_in ''Breaking Bad'' r)
   \<and> py_in ''Breaking Bad'' (response (chat_endpoint example_input))
   \<and> (\<exists>r. chat example_input = Some r \<and> py_in ''Breaking Bad'' (response r))
   \<and> parse_parts example_lib (split ''|'' example_query) (1, example_query, Dict [])
       = Inr (7, ''What is my favorite series?'', Dict example_context)
   \<and> py_in ''Breaking Bad'' (agent_analyze_preferences example_lib example_query)"
proof -
  have v: "dict_get example_pref ''value'' '''' = ''tv series: Breaking Bad''"
    by (simp add: example_pref_def dict_get_def)
  have low: "lower (message example_input) = ''what is my favorite series?''"
    by (simp add: example_input_def lower_def lower_char_def)
  have s1: "py_in ''series'' (lower (message example_input))"
    unfolding low by simp
  have s2: "py_in ''favorite series'' (lower (message example_input))"
    unfolding low by simp
  have f0: "find (\<lambda>p. py_in ''tv_series'' (dict_get p ''key'' '''')) [example_pref]
      = Some example_pref"
    by (simp add: example_pref_def dict_get_def)
  have f1: "find (\<lambda>p. py_in ''tv_series'' (dict_get p ''key'' ''''))
        (dict_get (user_context example_input) ''preferences'' []) = Some example_pref"
    by (simp add: example_input_def example_context_def example_pref_def dict_get_def)
  have f2: "find (\<lambda>p. py_in ''tv_series'' (dict_get p ''key'' '''')
                    \<or> py_in ''tv series'' (lower (dict_get p ''value'' '''')))
        (dict_get example_context ''preferences'' []) = Some example_pref"
    by (simp add: example_context_def example_pref_def dict_get_def)
  have pp: "parse_parts example_lib (split ''|'' example_query) (1, example_query, Dict [])
       = Inr (7, ''What is my favorite series?'', Dict example_context)"
    by (simp add: example_query_def example_json_def example_lib_def)
  have s3: "py_in ''series'' (lower ''What is my favorite series?'')"
    using s1 by (simp add: example_input_def)
  note C = C4_tv_series_preference [OF v, of "message example_input" "[example_pref]"
      example_input example_lib example_query 7 "''What is my favorite series?''"
      example_context]
  from C v s1 s2 s3 f0 f1 f2 pp show ?thesis by blast
qed

section \<open>Greetings\<close>

text \<open>
  C5. For every request whose message is \<open>hi\<close>, \<open>hello\<close> or \<open>hey\<close> after lowercasing,
  the chat endpoints of \<^verbatim>\<open>simple_ai\<close> and \<^verbatim>\<open>start_service\<close> answer with the fixed
  greeting text and the task type \<open>greeting\<close>, whatever the context holds.
\<close>

theorem C5_greeting:
  assumes "lower (message inp) \<in> {''hi'', ''hello'', ''hey''}"
  shows "response (chat_endpoint inp) = greeting_text
     \<and> task_type (chat_endpoint inp) = ''greeting''
     \<and> (\<exists>r. chat inp = Some r \<and> response r = greeting_text \<and> task_type r = ''greeting'')"
proof -
  from assms consider "lower (message inp) = ''hi''" | "lower (message inp) = ''hello''"
    | "lower (message inp) = ''hey''" by auto
  then show ?thesis
  proof cases
    case 1
    then show ?thesis
      by (simp add: chat_endpoint_def chat_def analyze_preferences_def Let_def)
  next
    case 2
    then show ?thesis
      by (simp add: chat_endpoint_def chat_def analyze_preferences_def Let_def)
  next
    case 3
    then show ?thesis
      by (simp add: chat_endpoint_def chat_def analyze_preferences_def Let_def)
  qed
qed

theorem C5_greeting_witness:
  "lower (message \<lparr>message = ''Hello'', user_id = 7, user_context = example_context\<rparr>)
     \<in> {''hi'', ''hello'', ''hey''}
   \<and> response (chat_endpoint \<lparr>message = ''Hello'', user_id = 7, user_context = example_context\<rparr>)
       = greeting_text
   \<and> task_type (chat_endpoint \<lparr>message = ''Hello'', user_id = 7, user_context = example_context\<rparr>)
       = ''greeting''
   \<and> (\<exists>r. chat \<lparr>message = ''Hello'', user_id = 7, user_context = example_context\<rparr> = Some r
          \<and> response r = greeting_text \<and> task_type r = ''greeting'')"
proof -
  have h: "lower (message \<lparr>message = ''Hello'', user_id = 7, user_context = example_context\<rparr>)
     \<in> {''hi'', ''hello'', ''hey''}"
    by (simp add: lower_def lower_char_def)
  from h C5_greeting [OF h] show ?thesis by blast
qed

section \<open>The flags of the simplified entry points\<close>

text \<open>
  C9 says that every response of the three simplified entry points that is not an
  exception carries \<open>memory_updated = true\<close> and a confidence of 0.7, 0.8 or 0.9.
  \<^verbatim>\<open>start_service.chat\<close> breaks this: a question about an album from a user with no
  album preference enters the album branch, finds nothing, and the function ends
  without a \<^verbatim>\<open>return\<close>. Its result is \<^verbatim>\<open>None\<close>, a response with neither field.
\<close>

theorem C9_start_service_returns_none:
  "chat \<lparr>message = ''Which album do I love?'', user_id = 1, user_context = []\<rparr> = None"
  by (simp add: chat_def lower_def lower_char_def dict_get_def)

text \<open>
  The other two entry points always answer with the flags C9 names, and so does
  \<^verbatim>\<open>start_service.chat\<close> whenever it returns a response object.
\<close>

lemma simple_ai_flags:
  "memory_updated (chat_endpoint inp) \<and> confidence (chat_endpoint inp) \<in> {0.7, 0.8, 0.9}"
  by (simp add: chat_endpoint_def Let_def)

lemma simple_main_flags:
  "memory_updated (orchestrate_ai_task rq) \<and> confidence (orchestrate_ai_task rq) = 0.9"
  by (simp add: orchestrate_ai_task_def Let_def)

lemma start_service_flags:
  "chat inp = Some r \<Longrightarrow> memory_updated r \<and> confidence r \<in> {0.7, 0.8, 0.9}"
  by (auto simp: chat_def Let_def split: if_splits option.splits)

section \<open>Record identifiers\<close>


lemma lt10_cases: "(d::nat) < 10 \<Longrightarrow> d \<in> {0, 1, 2, 3, 4, 5, 6, 7, 8, 9}"
  by auto

lemma digit_char_inj:
  assumes "a < 10" "b < 10" "digit_char a = digit_char b"
  shows "a = b"
  using lt10_cases [OF assms(1)] lt10_cases [OF assms(2)] assms(3)
  by (auto simp: digit_char_def)

lemma digit_char_in: "d < 10 \<Longrightarrow> digit_char d \<in> set ''0123456789''"
  using lt10_cases [of d] by (auto simp: digit_char_def)

lemma str_nat_nonempty: "str_nat n \<noteq> []"
  by (subst str_nat.simps) simp

lemma str_nat_digits: "set (str_nat n) \<subseteq> set ''0123456789''"
proof (induction n rule: str_nat.induct)
  case (1 n)
  show ?case
  proof (cases "n < 10")
    case True
    then show ?thesis using digit_char_in [of n] by (subst str_nat.simps) simp
  next
    case False
    have "n mod 10 < 10" by simp
    from digit_char_in [OF this] 1 [OF False] False show ?thesis
      by (subst str_nat.simps) simp
  qed
qed

lemma str_nat_inj: "str_nat n = str_nat m \<Longrightarrow> n = m"
proof (induction n arbitrary: m rule: str_nat.induct)
  case (1 n)
  show ?case
  proof (cases "n < 10")
    case n: True
    show ?thesis
    proof (cases "m < 10")
      case True
      with n "1.prems" show ?thesis
        by (simp add: str_nat.simps [of n] str_nat.simps [of m] digit_char_inj)
    next
      case False
      with n "1.prems" str_nat_nonempty [of "m div 10"] show ?thesis
        by (simp add: str_nat.simps [of n] str_nat.simps [of m])
    qed
  next
    case n: False
    show ?thesis
    proof (cases "m < 10")
      case True
      with n "1.prems" str_nat_nonempty [of "n div 10"] show ?thesis
        by (simp add: str_nat.simps [of n] str_nat.simps [of m])
    next
      case False
      with n "1.prems" have e: "str_nat (n div 10) = str_nat (m div 10)"
        and d: "digit_char (n mod 10) = digit_char (m mod 10)"
        by (simp_all add: str_nat.simps [of n] str_nat.simps [of m])
      from "1.IH" [OF n e] have q: "n div 10 = m div 10" .
      have "n mod 10 = m mod 10" using d by (intro digit_char_inj) simp_all
      with q show ?thesis by (metis div_mult_mod_eq)
    qed
  qed
qed

lemma str_int_inj: "str_int i = str_int j \<Longrightarrow> i = j"
proof -
  assume e: "str_int i = str_int j"
  have nd: "CHR ''-'' \<notin> set (str_nat k)" for k
    using str_nat_digits [of k] by auto
  have hd_ne: "str_nat k \<noteq> CHR ''-'' # xs" for k xs
    using nd [of k] by (metis list.set_intros(1))
  show ?thesis
  proof (cases "i < 0")
    case i: True
    show ?thesis
    proof (cases "j < 0")
      case True
      with i e have "nat (- i) = nat (- j)" by (simp add: str_int_def str_nat_inj)
      with i True show ?thesis by simp
    next
      case False
      with i e hd_ne show ?thesis by (simp add: str_int_def) metis
    qed
  next
    case i: False
    show ?thesis
    proof (cases "j < 0")
      case True
      with i e hd_ne show ?thesis by (simp add: str_int_def)
    next
      case False
      with i e have "nat i = nat j" by (simp add: str_int_def str_nat_inj)
      with i False show ?thesis by simp
    qed
  qed
qed

lemma str_int_no_underscore: "CHR ''_'' \<notin> set (str_int i)"
  using str_nat_digits [of "nat i"] str_nat_digits [of "nat (- i)"]
  by (auto simp: str_int_def)

lemma split_at_separator:
  assumes "c \<notin> set xs" "c \<notin> set xs'" "xs @ c # ys = xs' @ c # ys'"
  shows "xs = xs' \<and> ys = ys'"
  using assms
proof (induction xs arbitrary: xs')
  case Nil
  then show ?case by (cases xs') auto
next
  case (Cons x xs)
  then show ?case by (cases xs') auto
qed

lemma id_inj:
  assumes "inj float_str"
    and "p @ str_int u1 @ ''_'' @ float_str t1 = p @ str_int u2 @ ''_'' @ float_str t2"
  shows "u1 = u2 \<and> t1 = t2"
proof -
  from assms(2) have "str_int u1 @ CHR ''_'' # float_str t1 = str_int u2 @ CHR ''_'' # float_str t2"
    by simp
  from split_at_separator [OF str_int_no_underscore str_int_no_underscore this]
  show ?thesis using assms(1) str_int_inj by (auto dest: injD)
qed

text \<open>
  C8, as stated, fails for two writes of different store functions: the context
  record and the conversation record that \<^verbatim>\<open>ChromaDBManager\<close> writes into one
  collection for the same user at the same clock reading have different identifiers
  although their (user id, timestamp) pairs are equal.
\<close>

theorem C8_context_and_conversation_differ:
  "conversation_id (\<lambda>t. t) 7 ''1736589600.25'' = ''user_7_1736589600.25''
   \<and> context_id (\<lambda>t. t) 7 ''1736589600.25'' = ''context_7_1736589600.25''
   \<and> ((7 :: int), ''1736589600.25'') = (7, ''1736589600.25'')
   \<and> conversation_id (\<lambda>t. t) 7 ''1736589600.25'' \<noteq> context_id (\<lambda>t. t) 7 ''1736589600.25''"
  by (simp add: conversation_id_def context_id_def str_int_def str_nat.simps digit_char_def)

text \<open>
  C8 (amended). An identifier is built from a prefix that names the store function,
  the user id and the clock reading, and from nothing else. For two writes of the
  same store function the identifiers differ exactly when the (user id, timestamp)
  pairs differ, so two such writes for one user at one clock reading collide. Two
  writes of different store functions never share an identifier. Python formats
  different floats as different texts, which is the assumption on \<open>float_str\<close>.
\<close>

theorem C8_identifier:
  assumes "inj float_str"
  shows "(memory_id float_str u1 t1 \<noteq> memory_id float_str u2 t2) = ((u1, t1) \<noteq> (u2, t2))
     \<and> (conversation_id float_str u1 t1 \<noteq> conversation_id float_str u2 t2)
         = ((u1, t1) \<noteq> (u2, t2))
     \<and> (context_id float_str u1 t1 \<noteq> context_id float_str u2 t2)
         = ((u1, t1) \<noteq> (u2, t2))
     \<and> conversation_id float_str u1 t1 \<noteq> context_id float_str u2 t2
     \<and> memory_id float_str u1 t1 \<noteq> conversation_id float_str u2 t2
     \<and> memory_id float_str u1 t1 \<noteq> context_id float_str u2 t2"
proof -
  have a: "(memory_id float_str u1 t1 \<noteq> memory_id float_str u2 t2)
      = ((u1, t1) \<noteq> (u2, t2))"
    using id_inj [OF assms, of "''memory_''" u1 t1 u2 t2] unfolding memory_id_def by blast
  have b: "(conversation_id float_str u1 t1 \<noteq> conversation_id float_str u2 t2)
      = ((u1, t1) \<noteq> (u2, t2))"
    using id_inj [OF assms, of "''user_''" u1 t1 u2 t2] unfolding conversation_id_def
    by blast
  have c: "(context_id float_str u1 t1 \<noteq> context_id float_str u2 t2)
      = ((u1, t1) \<noteq> (u2, t2))"
    using id_inj [OF assms, of "''context_''" u1 t1 u2 t2] unfolding context_id_def by blast
  have d: "conversation_id float_str u1 t1 \<noteq> context_id float_str u2 t2"
    "memory_id float_str u1 t1 \<noteq> conversation_id float_str u2 t2"
    "memory_id float_str u1 t1 \<noteq> context_id float_str u2 t2"
    by (simp_all add: conversation_id_def context_id_def memory_id_def)
  from a b c d show ?thesis by blast
qed

theorem C8_identifier_witness:
  "inj (\<lambda>t :: string. t)
   \<and> memory_id (\<lambda>t. t) 7 ''1736589600.25'' = ''memory_7_1736589600.25''
   \<and> conversation_id (\<lambda>t. t) (- 12) ''1736589600.25'' = ''user_-12_1736589600.25''
   \<and> memory_id (\<lambda>t. t) 7 ''1736589600.25'' \<noteq> memory_id (\<lambda>t. t) 7 ''1736589600.5''
   \<and> memory_id (\<lambda>t. t) 7 ''1736589600.25'' \<noteq> memory_id (\<lambda>t. t) 8 ''1736589600.25''
   \<and> conversation_id (\<lambda>t. t) 7 ''1736589600.25''
       \<noteq> conversation_id (\<lambda>t. t) 7 ''1736589600.5''
   \<and> context_id (\<lambda>t. t) 7 ''1736589600.25'' \<noteq> context_id (\<lambda>t. t) 8 ''1736589600.25''
   \<and> conversation_id (\<lambda>t. t) 7 ''1736589600.25'' \<noteq> context_id (\<lambda>t. t) 7 ''1736589600.25''"
proof -
  have i: "inj (\<lambda>t :: string. t)" by (simp add: inj_def)
  have a: "memory_id (\<lambda>t. t) 7 ''1736589600.25'' = ''memory_7_1736589600.25''"
    by (simp add: memory_id_def str_int_def str_nat.simps digit_char_def)
  have b: "conversation_id (\<lambda>t. t) (- 12) ''1736589600.25'' = ''user_-12_1736589600.25''"
    by (simp add: conversation_id_def str_int_def str_nat.simps digit_char_def)
  from i a b
    C8_identifier [OF i, of 7 "''1736589600.25''" 7 "''1736589600.5''"]
    C8_identifier [OF i, of 7 "''1736589600.25''" 8 "''1736589600.25''"]
    C8_identifier [OF i, of 7 "''1736589600.25''" 7 "''1736589600.25''"]
  show ?thesis by simp
qed

section \<open>Failures of the vector store\<close>

lemma search_raises:
  "query coll [q] n uid = Inl e \<Longrightarrow> search_memory (Some coll) uid q n = []"
  by (simp add: search_memory_def try_except_def)

lemma store_conversation_none:
  "store_conversation co fs now_iso now_ts uid msg resp tt tools = PyNone"
  by (simp add: store_conversation_def try_except_def Let_def split: option.splits sum.splits)

text \<open>
  C6, as stated, fails on \<^verbatim>\<open>ChromaDBManager.store_conversation\<close>: when the store
  raises, the method returns \<^verbatim>\<open>None\<close>, not the boolean false, and \<^verbatim>\<open>None\<close> is also
  what it returns when the write succeeds, so the result reports nothing.
\<close>

theorem C6_store_conversation_returns_none:
  "add failing_collection [''User: hi'' @ [CHR 0x0A] @ ''Assistant: hello'']
       [[(''user_id'', MInt 7), (''timestamp'', MStr ''2025-01-11T10:00:00''),
         (''task_type'', MStr ''general_chat''),
         (''tools_used'', MStr (dumps_names [''general_response''])),
         (''message'', MStr ''hi''), (''response'', MStr ''hello'')]]
       [conversation_id (\<lambda>t. t) 7 ''1736589600.25'']
     = Inl ''Connection refused''
   \<and> store_conversation (Some failing_collection) (\<lambda>t. t) ''2025-01-11T10:00:00''
       ''1736589600.25'' 7 ''hi'' ''hello'' ''general_chat'' [''general_response''] = PyNone
   \<and> PyNone \<noteq> PyBool False
   \<and> store_conversation (Some accepting_collection) (\<lambda>t. t) ''2025-01-11T10:00:00''
       ''1736589600.25'' 7 ''hi'' ''hello'' ''general_chat'' [''general_response''] = PyNone"
  by (simp add: store_conversation_none failing_collection_def)

text \<open>
  C6 (amended). When the call into the vector store raises,
  \<^verbatim>\<open>ChromaDBManager.search_memory\<close> returns the empty list and \<^verbatim>\<open>store_memory\<close> of
  \<^verbatim>\<open>python_ai_service/main.py\<close> returns the boolean false;
  \<^verbatim>\<open>ChromaDBManager.store_conversation\<close> returns \<^verbatim>\<open>None\<close> on every path, a failed
  write included. No exception escapes any of the three.
\<close>

theorem C6_store_failures:
  "(query coll [q] n uid = Inl e \<longrightarrow> search_memory (Some coll) uid q n = [])
   \<and> (add coll [c]
         [dict_merge [(''user_id'', MInt uid), (''timestamp'', MStr now_iso)]
            (case meta of None \<Rightarrow> [] | Some m \<Rightarrow> m)]
         [memory_id float_str uid now_ts] = Inl e
       \<longrightarrow> store_memory (Some coll) float_str now_iso now_ts uid c meta = False)
   \<and> store_conversation co float_str now_iso now_ts uid msg resp tt tools = PyNone"
  by (simp add: search_raises store_conversation_none store_memory_def try_except_def)

theorem C6_store_failures_witness:
  "query failing_collection [''favorite series''] 5 7 = Inl ''Connection refused''
   \<and> search_memory (Some failing_collection) 7 ''favorite series'' 5 = []
   \<and> add failing_collection [''User: hi'']
        [dict_merge [(''user_id'', MInt 7), (''timestamp'', MStr ''2025-01-11T10:00:00'')]
           (case Some [(''task_type'', MStr ''general_chat'')] of
              None \<Rightarrow> [] | Some m \<Rightarrow> m)]
        [memory_id (\<lambda>t. t) 7 ''1736589600.25''] = Inl ''Connection refused''
   \<and> store_memory (Some failing_collection) (\<lambda>t. t) ''2025-01-11T10:00:00''
        ''1736589600.25'' 7 ''User: hi'' (Some [(''task_type'', MStr ''general_chat'')])
       = False
   \<and> store_conversation (Some failing_collection) (\<lambda>t. t) ''2025-01-11T10:00:00''
       ''1736589600.25'' 7 ''hi'' ''hello'' ''general_chat'' [''general_response''] = PyNone"
proof -
  have q: "query failing_collection [''favorite series''] 5 7 = Inl ''Connection refused''"
    by (simp add: failing_collection_def)
  have a: "add failing_collection [''User: hi'']
        [dict_merge [(''user_id'', MInt 7), (''timestamp'', MStr ''2025-01-11T10:00:00'')]
           (case Some [(''task_type'', MStr ''general_chat'')] of
              None \<Rightarrow> [] | Some m \<Rightarrow> m)]
        [memory_id (\<lambda>t. t) 7 ''1736589600.25''] = Inl ''Connection refused''"
    by (simp add: failing_collection_def)
  from q a
    C6_store_failures [of failing_collection "''favorite series''" 5 7
      "''Connection refused''" "''User: hi''" "''2025-01-11T10:00:00''"
      "Some [(''task_type'', MStr ''general_chat'')]" "\<lambda>t. t" "''1736589600.25''"
      "Some failing_collection" "''hi''" "''hello''" "''general_chat''"
      "[''general_response'']"]
  show ?thesis by blast
qed

section \<open>Failures behind the tools\<close>





section \<open>What the health endpoints report\<close>

lemma web_search_unset:
  "getenv ''TAVILY_API_KEY'' = None \<Longrightarrow> \<not> check_status (web_search_init getenv)"
  by (simp add: check_status_def web_search_init_def)

lemma google_unset:
  "getenv ''GOOGLE_CREDENTIALS_PATH'' = None \<Longrightarrow> \<not> check_status (google_tool_init getenv api)"
  by (simp add: check_status_def google_tool_init_def)

lemma google_no_credential_file:
  assumes "import_error api = None" "\<not> token_exists api"
    "from_client_secrets_file api (getenv ''GOOGLE_CREDENTIALS_PATH'') = Inl e"
  shows "\<not> check_status (google_tool_init getenv api)"
  using assms
  by (simp add: check_status_def google_tool_init_def initialize_service_def obtain_creds_def
      try_except_def Let_def)

lemma health_tools:
  "lookup_path [''services'', ''tools'', ''web_search'']
      (health_check getenv ca ma ok1 ok2 now) = Some (Flag (check_status (web_search_init getenv)))"
  "lookup_path [''services'', ''tools'', ''calendar'']
      (health_check getenv ca ma ok1 ok2 now) = Some (Flag (check_status (google_tool_init getenv ca)))"
  "lookup_path [''services'', ''tools'', ''email'']
      (health_check getenv ca ma ok1 ok2 now) = Some (Flag (check_status (google_tool_init getenv ma)))"
  by (simp_all add: health_check_def)

text \<open>
  C7, as stated, fails on the health endpoint of \<^verbatim>\<open>simple_main\<close>: with no variable
  set at all it reports the Tavily integration as \<open>configured\<close>.
\<close>

theorem C7_simple_health_is_fixed:
  "empty_environment ''TAVILY_API_KEY'' = None
   \<and> lookup_path [''services'', ''tavily'']
        (simple_health_check empty_environment ''2025-01-11T10:00:00'')
       = Some (Text ''configured'')
   \<and> \<not> spec_false_or_absent
        (lookup_path [''services'', ''tavily'']
           (simple_health_check empty_environment ''2025-01-11T10:00:00''))"
  by (simp add: simple_health_check_def spec_false_or_absent_def empty_environment_def)

text \<open>
  C7 (amended). The health endpoint of \<^verbatim>\<open>ai_assistant/main.py\<close> reports
  \<open>web_search\<close> false when \<^verbatim>\<open>TAVILY_API_KEY\<close> is not set, and \<open>calendar\<close> and
  \<open>email\<close> false when \<^verbatim>\<open>GOOGLE_CREDENTIALS_PATH\<close> is not set, or when no token is
  saved and loading the credential file raises, as it does for an absent file. The
  health endpoint of \<^verbatim>\<open>simple_main\<close> reports the same fixed map whatever the
  environment holds.
\<close>

theorem C7_health:
  "(getenv ''TAVILY_API_KEY'' = None
      \<longrightarrow> lookup_path [''services'', ''tools'', ''web_search'']
            (health_check getenv cal_api mail_api ollama_ok chroma_ok now_iso)
           = Some (Flag False))
   \<and> (getenv ''GOOGLE_CREDENTIALS_PATH'' = None
      \<longrightarrow> lookup_path [''services'', ''tools'', ''calendar'']
            (health_check getenv cal_api mail_api ollama_ok chroma_ok now_iso)
           = Some (Flag False)
          \<and> lookup_path [''services'', ''tools'', ''email'']
            (health_check getenv cal_api mail_api ollama_ok chroma_ok now_iso)
           = Some (Flag False))
   \<and> (import_error cal_api = None \<and> \<not> token_exists cal_api
        \<and> from_client_secrets_file cal_api (getenv ''GOOGLE_CREDENTIALS_PATH'') = Inl e
      \<longrightarrow> lookup_path [''services'', ''tools'', ''calendar'']
            (health_check getenv cal_api mail_api ollama_ok chroma_ok now_iso)
           = Some (Flag False))
   \<and> (import_error mail_api = None \<and> \<not> token_exists mail_api
        \<and> from_client_secrets_file mail_api (getenv ''GOOGLE_CREDENTIALS_PATH'') = Inl e'
      \<longrightarrow> lookup_path [''services'', ''tools'', ''email'']
            (health_check getenv cal_api mail_api ollama_ok chroma_ok now_iso)
           = Some (Flag False))
   \<and> simple_health_check getenv now_iso = simple_health_check getenv' now_iso"
proof -
  have a: "lookup_path [''services'', ''tools'', ''web_search'']
            (health_check getenv cal_api mail_api ollama_ok chroma_ok now_iso)
           = Some (Flag False)" if "getenv ''TAVILY_API_KEY'' = None"
    using web_search_unset [of getenv] that by (simp add: health_tools)
  have b: "lookup_path [''services'', ''tools'', ''calendar'']
            (health_check getenv cal_api mail_api ollama_ok chroma_ok now_iso)
           = Some (Flag False)
          \<and> lookup_path [''services'', ''tools'', ''email'']
            (health_check getenv cal_api mail_api ollama_ok chroma_ok now_iso)
           = Some (Flag False)" if "getenv ''GOOGLE_CREDENTIALS_PATH'' = None"
    using google_unset [of getenv cal_api] google_unset [of getenv mail_api] that
    by (simp add: health_tools)
  have c: "lookup_path [''services'', ''tools'', ''calendar'']
            (health_check getenv cal_api mail_api ollama_ok chroma_ok now_iso)
           = Some (Flag False)"
    if "import_error cal_api = None" "\<not> token_exists cal_api"
      "from_client_secrets_file cal_api (getenv ''GOOGLE_CREDENTIALS_PATH'') = Inl e"
    using google_no_credential_file [of cal_api getenv e] that by (simp add: health_tools)
  have d: "lookup_path [''services'', ''tools'', ''email'']
            (health_check getenv cal_api mail_api ollama_ok chroma_ok now_iso)
           = Some (Flag False)"
    if "import_error mail_api = None" "\<not> token_exists mail_api"
      "from_client_secrets_file mail_api (getenv ''GOOGLE_CREDENTIALS_PATH'') = Inl e'"
    using google_no_credential_file [of mail_api getenv e'] that by (simp add: health_tools)
  have f: "simple_health_check getenv now_iso = simple_health_check getenv' now_iso"
    by (simp add: simple_health_check_def)
  from a b c d f show ?thesis by blast
qed

theorem C7_health_witness:
  "empty_environment ''TAVILY_API_KEY'' = None
   \<and> empty_environment ''GOOGLE_CREDENTIALS_PATH'' = None
   \<and> health_check empty_environment
        (no_credentials_api (raising_calendar ''x'')) (no_credentials_api (raising_gmail ''x''))
        True True ''2025-01-11T10:00:00''
      = Nested
         [(''status'', Text ''healthy''),
          (''timestamp'', Text ''2025-01-11T10:00:00''),
          (''services'',
           Nested
             [(''langchain'', Flag True), (''ollama'', Flag True), (''chromadb'', Flag True),
              (''tools'',
               Nested
                 [(''web_search'', Flag False), (''calendar'', Flag False),
                  (''email'', Flag False), (''image_analysis'', Flag False)])])]
   \<and> from_client_secrets_file (no_credentials_api (raising_calendar ''x'')
        :: (unit, calendar_service) google_api)
        (map_of [(''GOOGLE_CREDENTIALS_PATH'', ''credentials.json'')] ''GOOGLE_CREDENTIALS_PATH'')
       = Inl ''[Errno 2] No such file or directory: credentials.json''
   \<and> lookup_path [''services'', ''tools'', ''calendar'']
        (health_check (map_of [(''GOOGLE_CREDENTIALS_PATH'', ''credentials.json'')])
           (no_credentials_api (raising_calendar ''x''))
           (no_credentials_api (raising_gmail ''x'')) True True ''2025-01-11T10:00:00'')
       = Some (Flag False)
   \<and> lookup_path [''services'', ''tools'', ''email'']
        (health_check (map_of [(''GOOGLE_CREDENTIALS_PATH'', ''credentials.json'')])
           (no_credentials_api (raising_calendar ''x''))
           (no_credentials_api (raising_gmail ''x'')) True True ''2025-01-11T10:00:00'')
       = Some (Flag False)"
proof -
  let ?ca = "no_credentials_api (raising_calendar ''x'') :: (unit, calendar_service) google_api"
  let ?ma = "no_credentials_api (raising_gmail ''x'') :: (unit, gmail_service) google_api"
  let ?env = "map_of [(''GOOGLE_CREDENTIALS_PATH'', ''credentials.json'')]"
  have e1: "empty_environment ''TAVILY_API_KEY'' = None"
    and e2: "empty_environment ''GOOGLE_CREDENTIALS_PATH'' = None"
    by (simp_all add: empty_environment_def)
  have h: "health_check empty_environment ?ca ?ma True True ''2025-01-11T10:00:00''
      = Nested
         [(''status'', Text ''healthy''),
          (''timestamp'', Text ''2025-01-11T10:00:00''),
          (''services'',
           Nested
             [(''langchain'', Flag True), (''ollama'', Flag True), (''chromadb'', Flag True),
              (''tools'',
               Nested
                 [(''web_search'', Flag False), (''calendar'', Flag False),
                  (''email'', Flag False), (''image_analysis'', Flag False)])])]"
    using web_search_unset [of empty_environment] google_unset [of empty_environment ?ca]
      google_unset [of empty_environment ?ma] e1 e2
    by (simp add: health_check_def)
  have i1: "import_error ?ca = None" "\<not> token_exists ?ca"
    "import_error ?ma = None" "\<not> token_exists ?ma"
    by (simp_all add: no_credentials_api_def)
  have f1: "from_client_secrets_file ?ca (?env ''GOOGLE_CREDENTIALS_PATH'')
       = Inl ''[Errno 2] No such file or directory: credentials.json''"
    by (simp add: no_credentials_api_def)
  have f2: "from_client_secrets_file ?ma (?env ''GOOGLE_CREDENTIALS_PATH'')
       = Inl ''[Errno 2] No such file or directory: credentials.json''"
    by (simp add: no_credentials_api_def)
  note T = C7_health [where getenv = ?env and cal_api = ?ca and mail_api = ?ma
      and e = "''[Errno 2] No such file or directory: credentials.json''"
      and e' = "''[Errno 2] No such file or directory: credentials.json''"
      and ollama_ok = True and chroma_ok = True and now_iso = "''2025-01-11T10:00:00''"
      and getenv' = empty_environment]
  from T i1 f1 f2 e1 e2 h show ?thesis by blast
qed

end
